theory Spec2Isabelle
  imports Complex_Main
begin

section \<open>Python values used by bts_dataloader.py\<close>

text \<open>
  The exceptions the code can raise. An \<^verbatim>\<open>assert\<close> that fails is
  \<open>AssertionError\<close>; numpy raises \<open>ValueError\<close> for axes or shapes that do not
  fit and \<open>IndexError\<close> for too many indices; a dictionary raises \<open>KeyError\<close> for
  a missing key; torch raises \<open>RuntimeError\<close> when shapes or element counts do not fit.
\<close>

datatype py_error =
  AssertionError | TypeError | ValueError | IndexError | KeyError | RuntimeError

subsection \<open>numpy arrays\<close>

text \<open>
  A three-dimensional numpy array (height, width, channel): its \<^verbatim>\<open>shape\<close>
  and its elements, row by row. The shape is kept beside the elements, as numpy keeps
  it: an array with no rows still has a width and a channel count. Arrays of
  \<^verbatim>\<open>float32\<close> are arrays of \<open>real\<close>: NaN and infinities are outside this
  model, and so is rounding, except in the standardization of ToTensor. Functions that
  only move elements are polymorphic in the element.
\<close>

record 'a ndarray3 =
  shape0 :: nat
  shape1 :: nat
  shape2 :: nat
  elems :: "'a list list list"

definition well_shaped :: "'a ndarray3 \<Rightarrow> bool" where
  "well_shaped a \<longleftrightarrow>
     length (elems a) = shape0 a \<and>
     list_all (\<lambda>row. length row = shape1 a \<and> list_all (\<lambda>px. length px = shape2 a) row)
       (elems a)"

text \<open>A two-dimensional numpy array (height, width).\<close>

record 'a ndarray2 =
  rows2 :: nat
  cols2 :: nat
  elems2 :: "'a list list"

definition well_shaped2 :: "'a ndarray2 \<Rightarrow> bool" where
  "well_shaped2 a \<longleftrightarrow>
     length (elems2 a) = rows2 a \<and> list_all (\<lambda>row. length row = cols2 a) (elems2 a)"

text \<open>The element at \<^verbatim>\<open>a[i, j, k]\<close>, for indices within the shape.\<close>

definition at3 :: "'a ndarray3 \<Rightarrow> nat \<Rightarrow> nat \<Rightarrow> nat \<Rightarrow> 'a" where
  "at3 a i j k = elems a ! i ! j ! k"

text \<open>
  An array given by its shape and its element at every index
  (\<^verbatim>\<open>np.fromfunction\<close>).
\<close>

definition build3 :: "nat \<Rightarrow> nat \<Rightarrow> nat \<Rightarrow> (nat \<Rightarrow> nat \<Rightarrow> nat \<Rightarrow> 'a) \<Rightarrow> 'a ndarray3" where
  "build3 h w c f =
     \<lparr>shape0 = h, shape1 = w, shape2 = c,
      elems = map (\<lambda>i. map (\<lambda>j. map (\<lambda>k. f i j k) [0..<c]) [0..<w]) [0..<h]\<rparr>"

text \<open>Every element of the array satisfies \<open>P\<close>.\<close>

definition all3 :: "('a \<Rightarrow> bool) \<Rightarrow> 'a ndarray3 \<Rightarrow> bool" where
  "all3 P a = list_all (list_all (list_all P)) (elems a)"

text \<open>An elementwise operation with a scalar (\<^verbatim>\<open>a / 255.0\<close>, \<^verbatim>\<open>a ** gamma\<close>).\<close>

definition map3 :: "('a \<Rightarrow> 'b) \<Rightarrow> 'a ndarray3 \<Rightarrow> 'b ndarray3" where
  "map3 f a =
     \<lparr>shape0 = shape0 a, shape1 = shape1 a, shape2 = shape2 a,
      elems = map (map (map f)) (elems a)\<rparr>"

subsection \<open>Slicing\<close>

text \<open>
  Python's adjustment of a slice bound to a sequence of length \<open>n\<close>
  (\<^verbatim>\<open>slice.indices\<close> with step 1): a negative bound counts from the end, and
  the result is clipped to \<open>0..n\<close>.
\<close>

definition adjust_index :: "nat \<Rightarrow> int \<Rightarrow> nat" where
  "adjust_index n i =
     (if i < 0 then (if i + int n < 0 then 0 else nat (i + int n))
      else if int n \<le> i then n else nat i)"

text \<open>\<^verbatim>\<open>xs[i:j]\<close> and the number of elements it selects.\<close>

definition py_slice :: "int \<Rightarrow> int \<Rightarrow> 'a list \<Rightarrow> 'a list" where
  "py_slice i j xs =
     (let lo = adjust_index (length xs) i; hi = adjust_index (length xs) j
      in take (hi - lo) (drop lo xs))"

definition slice_len :: "nat \<Rightarrow> int \<Rightarrow> int \<Rightarrow> nat" where
  "slice_len n i j = adjust_index n j - adjust_index n i"

text \<open>\<^verbatim>\<open>a[y0:y1, x0:x1, :]\<close>: the new shape comes from the old shape, the elements from the old elements.\<close>

definition slice_hw :: "int \<Rightarrow> int \<Rightarrow> int \<Rightarrow> int \<Rightarrow> 'a ndarray3 \<Rightarrow> 'a ndarray3" where
  "slice_hw y0 y1 x0 x1 a =
     \<lparr>shape0 = slice_len (shape0 a) y0 y1,
      shape1 = slice_len (shape1 a) x0 x1,
      shape2 = shape2 a,
      elems = map (py_slice x0 x1) (py_slice y0 y1 (elems a))\<rparr>"

subsection \<open>The shared random source\<close>

text \<open>
  The code draws from Python's global generator. Each function of the model takes the
  generator's raw outputs for its draws as arguments, in the order the code draws them.
  \<^verbatim>\<open>random.randint(a, b)\<close> returns an integer \<open>N\<close> with \<open>a \<le> N \<le> b\<close> and
  raises ValueError on an empty range; \<open>r\<close> is the raw output it is computed from, and
  every value of the range is reached by some \<open>r\<close>.
  \<^verbatim>\<open>random.uniform(a, b)\<close> is \<^verbatim>\<open>a + (b - a) * random()\<close>, with
  \<open>u\<close> the value of \<^verbatim>\<open>random()\<close>, a number of the unit interval.
\<close>

definition randint :: "int \<Rightarrow> int \<Rightarrow> nat \<Rightarrow> py_error + int" where
  "randint a b r = (if b < a then Inl ValueError else Inr (a + int (r mod nat (b - a + 1))))"

definition uniform :: "real \<Rightarrow> real \<Rightarrow> real \<Rightarrow> real" where
  "uniform a b u = a + (b - a) * u"

section \<open>DataLoadPreprocess\<close>

subsection \<open>random_crop\<close>

text \<open>
  \<^verbatim>\<open>random_crop(self, img, depth, height, width)\<close>: four assertions, then the
  draw of \<open>x\<close>, then the draw of \<open>y\<close>, then the same slice of both arrays.
\<close>

definition random_crop ::
  "'a ndarray3 \<Rightarrow> 'b ndarray3 \<Rightarrow> int \<Rightarrow> int \<Rightarrow> nat \<Rightarrow> nat \<Rightarrow> py_error + ('a ndarray3 \<times> 'b ndarray3)" where
  "random_crop img depth height width rx ry =
     (if \<not> height \<le> int (shape0 img) then Inl AssertionError
      else if \<not> width \<le> int (shape1 img) then Inl AssertionError
      else if shape0 img \<noteq> shape0 depth then Inl AssertionError
      else if shape1 img \<noteq> shape1 depth then Inl AssertionError
      else
        case randint 0 (int (shape1 img) - width) rx of
          Inl e \<Rightarrow> Inl e
        | Inr x \<Rightarrow>
            (case randint 0 (int (shape0 img) - height) ry of
               Inl e \<Rightarrow> Inl e
             | Inr y \<Rightarrow>
                 Inr (slice_hw y (y + height) x (x + width) img,
                      slice_hw y (y + height) x (x + width) depth)))"

subsection \<open>Mirroring and elementwise operations\<close>

text \<open>\<^verbatim>\<open>a[:, ::-1, :]\<close>: every row is reversed along the width axis.\<close>

definition hflip :: "'a ndarray3 \<Rightarrow> 'a ndarray3" where
  "hflip a =
     \<lparr>shape0 = shape0 a, shape1 = shape1 a, shape2 = shape2 a, elems = map rev (elems a)\<rparr>"

text \<open>\<^verbatim>\<open>np.ones((h, w))\<close> and an elementwise operation on a two-dimensional array.\<close>

definition ones2 :: "nat \<Rightarrow> nat \<Rightarrow> real ndarray2" where
  "ones2 h w = \<lparr>rows2 = h, cols2 = w, elems2 = replicate h (replicate w 1)\<rparr>"

definition map2d :: "('a \<Rightarrow> 'b) \<Rightarrow> 'a ndarray2 \<Rightarrow> 'b ndarray2" where
  "map2d f a = \<lparr>rows2 = rows2 a, cols2 = cols2 a, elems2 = map (map f) (elems2 a)\<rparr>"

text \<open>
  \<^verbatim>\<open>np.stack(arrays, axis=2)\<close> of two-dimensional arrays: the arrays must be
  at least one and of one shape; element \<open>(i, j, k)\<close> of the result is element
  \<open>(i, j)\<close> of the \<open>k\<close>-th array.
\<close>

definition stack_axis2 :: "'a ndarray2 list \<Rightarrow> py_error + 'a ndarray3" where
  "stack_axis2 arrays =
     (case arrays of
        [] \<Rightarrow> Inl ValueError
      | a # rest \<Rightarrow>
          if list_all (\<lambda>b. rows2 b = rows2 a \<and> cols2 b = cols2 a) rest
          then Inr (build3 (rows2 a) (cols2 a) (length arrays)
                      (\<lambda>i j k. elems2 (arrays ! k) ! i ! j))
          else Inl ValueError)"

text \<open>
  \<^verbatim>\<open>a *= b\<close> on arrays: \<open>b\<close> is broadcast to the shape of \<open>a\<close>, which numpy
  allows when every dimension of \<open>b\<close> is that of \<open>a\<close> or is 1 (then its one entry is
  used at every index); otherwise it raises ValueError. The result has the shape of
  \<open>a\<close> and is written over \<open>a\<close>.
\<close>

definition broadcast_index :: "nat \<Rightarrow> nat \<Rightarrow> nat" where
  "broadcast_index d i = (if d = 1 then 0 else i)"

definition imul :: "real ndarray3 \<Rightarrow> real ndarray3 \<Rightarrow> py_error + real ndarray3" where
  "imul a b =
     (if (shape0 b = shape0 a \<or> shape0 b = 1) \<and>
         (shape1 b = shape1 a \<or> shape1 b = 1) \<and>
         (shape2 b = shape2 a \<or> shape2 b = 1)
      then Inr (build3 (shape0 a) (shape1 a) (shape2 a)
                  (\<lambda>i j k. at3 a i j k *
                     at3 b (broadcast_index (shape0 b) i) (broadcast_index (shape1 b) j)
                       (broadcast_index (shape2 b) k)))
      else Inl ValueError)"

text \<open>\<^verbatim>\<open>np.clip(a, lo, hi)\<close>, that is \<^verbatim>\<open>minimum(hi, maximum(a, lo))\<close>.\<close>

definition clip :: "real ndarray3 \<Rightarrow> real \<Rightarrow> real \<Rightarrow> real ndarray3" where
  "clip a lo hi = map3 (\<lambda>v. min hi (max v lo)) a"

subsection \<open>The store of arrays\<close>

text \<open>
  augment_image and train_preprocess create arrays and change one in place, so they
  run on a store: an array is named by its address, the position in the store; an
  operation that returns a new array allocates it at the next free address, and an
  in-place operation overwrites the array at its address. A function on the store
  returns the store it leaves and either the exception raised or its result.
\<close>

type_synonym store = "real ndarray3 list"

definition alloc :: "store \<Rightarrow> real ndarray3 \<Rightarrow> store \<times> nat" where
  "alloc s a = (s @ [a], length s)"

subsection \<open>augment_image\<close>

text \<open>
  \<^verbatim>\<open>augment_image(self, image)\<close>, with \<open>img\<close> the address of its argument
  (\<open>image\<close> is a constant of HOL). \<open>u_gamma\<close>, \<open>u_brightness\<close> and the three
  \<open>u_colors\<close> are the generator's outputs behind the draws of gamma, brightness and
  \<^verbatim>\<open>np.random.uniform(0.9, 1.1, size=3)\<close>. \<^verbatim>\<open>image ** gamma\<close> is \<open>powr\<close>
  on the non-negative values an image holds.
\<close>

definition augment_image ::
  "string \<Rightarrow> store \<Rightarrow> nat \<Rightarrow> real \<Rightarrow> real \<Rightarrow> real \<times> real \<times> real \<Rightarrow> store \<times> (py_error + nat)" where
  "augment_image dataset s img u_gamma u_brightness u_colors =
     (let gamma = uniform 0.9 1.1 u_gamma;
          (s, image_aug) = alloc s (map3 (\<lambda>v. v powr gamma) (s ! img));
          brightness = (if dataset = ''nyu'' then uniform 0.75 1.25 u_brightness
                        else uniform 0.9 1.1 u_brightness);
          (s, image_aug) = alloc s (map3 (\<lambda>v. v * brightness) (s ! image_aug));
          colors = (case u_colors of (u0, u1, u2) \<Rightarrow>
                      [uniform 0.9 1.1 u0, uniform 0.9 1.1 u1, uniform 0.9 1.1 u2]);
          white = ones2 (shape0 (s ! img)) (shape1 (s ! img))
      in case stack_axis2 (map (\<lambda>i. map2d (\<lambda>v. v * colors ! i) white) [0..<3]) of
           Inl e \<Rightarrow> (s, Inl e)
         | Inr c \<Rightarrow>
             (let (s, color_image) = alloc s c
              in case imul (s ! image_aug) (s ! color_image) of
                   Inl e \<Rightarrow> (s, Inl e)
                 | Inr product \<Rightarrow>
                     (let s = s[image_aug := product];
                          (s, image_aug) = alloc s (clip (s ! image_aug) 0 1)
                      in (s, Inr image_aug))))"

text \<open>
  The array that \<^verbatim>\<open>np.stack\<close> builds there, \<^verbatim>\<open>color_image\<close>: element
  \<open>(i, j, k)\<close> is \<open>colors[k]\<close>.
\<close>

definition color_image_of :: "nat \<Rightarrow> nat \<Rightarrow> real list \<Rightarrow> real ndarray3" where
  "color_image_of h w colors = build3 h w 3 (\<lambda>i j k. colors ! k)"

subsection \<open>train_preprocess\<close>

text \<open>
  \<^verbatim>\<open>train_preprocess(self, image, depth_gt)\<close>: \<open>do_flip\<close> and \<open>do_augment\<close> are
  the two values of \<^verbatim>\<open>random.random()\<close>; the copies of the mirrored arrays
  are new arrays.
\<close>

definition train_preprocess ::
  "string \<Rightarrow> store \<Rightarrow> nat \<Rightarrow> nat \<Rightarrow> real \<Rightarrow> real \<Rightarrow> real \<Rightarrow> real \<Rightarrow> real \<times> real \<times> real \<Rightarrow>
     store \<times> (py_error + nat \<times> nat)" where
  "train_preprocess dataset s img depth_gt do_flip do_augment u_gamma u_brightness u_colors =
     (let (s, img, depth_gt) =
            (if do_flip > 0.5
             then (let (s, img') = alloc s (hflip (s ! img));
                       (s, depth_gt') = alloc s (hflip (s ! depth_gt))
                   in (s, img', depth_gt'))
             else (s, img, depth_gt))
      in if do_augment > 0.5
         then (case augment_image dataset s img u_gamma u_brightness u_colors of
                 (s, Inl e) \<Rightarrow> (s, Inl e)
               | (s, Inr img) \<Rightarrow> (s, Inr (img, depth_gt)))
         else (s, Inr (img, depth_gt)))"

text \<open>
  The call as \<^verbatim>\<open>__getitem__\<close> makes it, on two arrays of its own: the values of
  the two arrays it returns.
\<close>

definition train_preprocess_arrays ::
  "string \<Rightarrow> real ndarray3 \<Rightarrow> real ndarray3 \<Rightarrow> real \<Rightarrow> real \<Rightarrow> real \<Rightarrow> real \<Rightarrow> real \<times> real \<times> real \<Rightarrow>
     py_error + real ndarray3 \<times> real ndarray3" where
  "train_preprocess_arrays dataset img depth_gt do_flip do_augment u_gamma u_brightness u_colors =
     (case train_preprocess dataset [img, depth_gt] 0 1 do_flip do_augment
             u_gamma u_brightness u_colors of
        (s, Inl e) \<Rightarrow> Inl e
      | (s, Inr (img', depth_gt')) \<Rightarrow> Inr (s ! img', s ! depth_gt'))"

section \<open>ToTensor\<close>

subsection \<open>The objects to_tensor can be given\<close>

text \<open>
  A PIL image, as far as to_tensor reads it: its mode, its size (width, height), its
  pixel values in row order as PIL stores them (read for the integer modes: signed
  32-bit numbers in mode I, unsigned 16-bit numbers in mode I;16) and the bytes of
  \<^verbatim>\<open>pic.tobytes()\<close>, each a number below 256 (read for the other modes).
\<close>

record pil_image =
  pil_mode :: string
  pil_size :: "nat \<times> nat"
  pil_ints :: "int list"
  pil_bytes :: "nat list"

text \<open>
  \<^verbatim>\<open>np.array(pic, np.int32)\<close> and \<^verbatim>\<open>np.array(pic, np.int16)\<close> store each
  pixel value in 32 and in 16 bits, two's complement: a value outside the range wraps
  around, as 40000 of an I;16 image does.
\<close>

definition as_int32 :: "int \<Rightarrow> int" where
  "as_int32 v = (v + 2147483648) mod 4294967296 - 2147483648"

definition as_int16 :: "int \<Rightarrow> int" where
  "as_int16 v = (v + 32768) mod 65536 - 32768"

text \<open>
  What \<^verbatim>\<open>torch.from_numpy\<close> reads of a numpy array besides its shape and its
  elements: the dtype, whether every stride is a multiple of the element size, whether
  some stride is negative (as in the view \<^verbatim>\<open>a[:, ::-1, :]\<close>, until it is
  copied), and whether the byte order is the machine's. Of the dtypes, torch has none
  for \<^verbatim>\<open>longdouble\<close>, for strings and for objects.
\<close>

datatype np_dtype =
    Bool8 | Int8 | Int16 | Int32 | Int64 | UInt8
  | Float16 | Float32 | Float64
  | LongDouble | Unicode | Object

fun torch_dtype :: "np_dtype \<Rightarrow> bool" where
  "torch_dtype LongDouble = False"
| "torch_dtype Unicode = False"
| "torch_dtype Object = False"
| "torch_dtype d = True"

fun is_floating_point :: "np_dtype \<Rightarrow> bool" where
  "is_floating_point Float16 = True"
| "is_floating_point Float32 = True"
| "is_floating_point Float64 = True"
| "is_floating_point d = False"

record np_layout =
  dtype :: np_dtype
  strides_aligned :: bool
  negative_stride :: bool
  native_byteorder :: bool

text \<open>
  The layout of the arrays that \<^verbatim>\<open>__getitem__\<close> builds: \<^verbatim>\<open>float32\<close>,
  made by an arithmetic operation, a slice with step 1 or a copy.
\<close>

definition float32_array :: np_layout where
  "float32_array =
     \<lparr>dtype = Float32, strides_aligned = True, negative_stride = False,
      native_byteorder = True\<rparr>"

text \<open>
  The argument of to_tensor is any Python object: a PIL image, a numpy array of some
  number of dimensions, or something else. Of an array with more than three dimensions
  only that number is read (\<open>NdArrayHigh n\<close> has \<open>4 + n\<close> dimensions), and the layout
  is read of an array with three dimensions only.
\<close>

datatype 'a pic =
    PilImage pil_image
  | NdArray0 'a
  | NdArray1 "'a list"
  | NdArray2 "'a ndarray2"
  | NdArray3 np_layout "'a ndarray3"
  | NdArrayHigh nat
  | OtherObject

fun is_ndarray :: "'a pic \<Rightarrow> bool" where
  "is_ndarray (PilImage p) = False"
| "is_ndarray OtherObject = False"
| "is_ndarray a = True"

text \<open>
  \<^verbatim>\<open>img.ndim\<close>; the code reads it of arrays only (\<^verbatim>\<open>and\<close> does not
  evaluate it for another object, where the value here is not used).
\<close>

fun ndim :: "'a pic \<Rightarrow> nat" where
  "ndim (NdArray0 v) = 0"
| "ndim (NdArray1 vs) = 1"
| "ndim (NdArray2 a) = 2"
| "ndim (NdArray3 m a) = 3"
| "ndim (NdArrayHigh n) = 4 + n"
| "ndim p = 0"

fun is_pil_image :: "'a pic \<Rightarrow> bool" where
  "is_pil_image (PilImage p) = True"
| "is_pil_image p = False"

definition is_numpy_image :: "'a pic \<Rightarrow> bool" where
  "is_numpy_image img \<longleftrightarrow> is_ndarray img \<and> ndim img \<in> {2, 3}"

subsection \<open>Tensors\<close>

text \<open>
  A tensor made from a numpy array has the array's elements and its dtype; one made
  from a PIL image has integers (modes I and I;16) or the bytes as floats.
\<close>

datatype 'a tensor =
    NumpyTensor np_dtype "'a ndarray3"
  | IntTensor "int ndarray3"
  | FloatTensor "real ndarray3"

text \<open>
  \<^verbatim>\<open>a.transpose((2, 0, 1))\<close> of numpy, and \<^verbatim>\<open>t.transpose(0, 1)\<close>,
  \<^verbatim>\<open>t.transpose(0, 2)\<close> of torch.
\<close>

definition transpose_201 :: "'a ndarray3 \<Rightarrow> 'a ndarray3" where
  "transpose_201 a = build3 (shape2 a) (shape0 a) (shape1 a) (\<lambda>c i j. at3 a i j c)"

definition transpose_01 :: "'a ndarray3 \<Rightarrow> 'a ndarray3" where
  "transpose_01 a = build3 (shape1 a) (shape0 a) (shape2 a) (\<lambda>i j k. at3 a j i k)"

definition transpose_02 :: "'a ndarray3 \<Rightarrow> 'a ndarray3" where
  "transpose_02 a = build3 (shape2 a) (shape1 a) (shape0 a) (\<lambda>i j k. at3 a k j i)"

text \<open>
  \<^verbatim>\<open>img.view(h, w, c)\<close>: the elements in row order, read as an array of the new
  shape; RuntimeError when their number is not \<open>h * w * c\<close>.
\<close>

definition view3 :: "nat \<Rightarrow> nat \<Rightarrow> nat \<Rightarrow> 'a list \<Rightarrow> py_error + 'a ndarray3" where
  "view3 h w c xs =
     (if length xs = h * w * c
      then Inr (build3 h w c (\<lambda>i j k. xs ! ((i * w + j) * c + k)))
      else Inl RuntimeError)"

text \<open>
  \<^verbatim>\<open>torch.from_numpy\<close> of an array with the layout \<open>m\<close> (a transposed view has
  the layout of its base: the same strides in another order). torch checks, in this
  order, that the strides are multiples of the element size, that none is negative and
  that the byte order is the machine's, each a ValueError, and then looks up its dtype
  for the array's, a TypeError when it has none. The tensor shares the elements.
\<close>

definition from_numpy :: "np_layout \<Rightarrow> 'a ndarray3 \<Rightarrow> py_error + 'a tensor" where
  "from_numpy m a =
     (if \<not> strides_aligned m then Inl ValueError
      else if negative_stride m then Inl ValueError
      else if \<not> native_byteorder m then Inl ValueError
      else if \<not> torch_dtype (dtype m) then Inl TypeError
      else Inr (NumpyTensor (dtype m) a))"

text \<open>The arrays \<^verbatim>\<open>torch.from_numpy\<close> converts.\<close>

definition torch_convertible :: "np_layout \<Rightarrow> bool" where
  "torch_convertible m \<longleftrightarrow>
     strides_aligned m \<and> \<not> negative_stride m \<and> native_byteorder m \<and> torch_dtype (dtype m)"

subsection \<open>to_tensor\<close>

text \<open>
  An array with 2 dimensions passes the check and fails in
  \<^verbatim>\<open>pic.transpose((2, 0, 1))\<close>, for which numpy raises ValueError. The arrays
  made of a PIL image are new ones, which \<^verbatim>\<open>torch.from_numpy\<close> converts.
\<close>

definition to_tensor :: "'a pic \<Rightarrow> py_error + 'a tensor" where
  "to_tensor pic =
     (if \<not> (is_pil_image pic \<or> is_numpy_image pic) then Inl TypeError
      else if is_ndarray pic then
        (case pic of
           NdArray3 m a \<Rightarrow> from_numpy m (transpose_201 a)
         | _ \<Rightarrow> Inl ValueError)
      else
        (case pic of
           PilImage p \<Rightarrow>
             (let nchannel = (if pil_mode p = ''YCbCr'' then 3
                              else if pil_mode p = ''I;16'' then 1
                              else length (pil_mode p))
              in if pil_mode p = ''I''
                 then (case view3 (snd (pil_size p)) (fst (pil_size p)) nchannel
                              (map as_int32 (pil_ints p)) of
                         Inl e \<Rightarrow> Inl e
                       | Inr img \<Rightarrow> Inr (IntTensor (transpose_02 (transpose_01 img))))
                 else if pil_mode p = ''I;16''
                 then (case view3 (snd (pil_size p)) (fst (pil_size p)) nchannel
                              (map as_int16 (pil_ints p)) of
                         Inl e \<Rightarrow> Inl e
                       | Inr img \<Rightarrow> Inr (IntTensor (transpose_02 (transpose_01 img))))
                 else (case view3 (snd (pil_size p)) (fst (pil_size p)) nchannel (pil_bytes p) of
                         Inl e \<Rightarrow> Inl e
                       | Inr img \<Rightarrow>
                           Inr (FloatTensor (map3 real (transpose_02 (transpose_01 img))))))
         | _ \<Rightarrow> Inl TypeError))"

subsection \<open>Normalize\<close>

text \<open>
  \<^verbatim>\<open>float32\<close> arithmetic rounds the constants it is given and the exact result
  of every operation. In the standardization the rounding is a parameter \<open>fl\<close> of the
  model; everywhere else \<^verbatim>\<open>float32\<close> numbers are modelled by \<open>real\<close> ones
  and the operations are exact. \<open>rounding fl\<close> is what is known of \<open>fl\<close>, the standard
  model of floating-point arithmetic with gradual underflow: for a number of magnitude
  at most 2 to the power 127, so within the finite range of \<^verbatim>\<open>float32\<close>, the
  error is at most the number's magnitude divided by 2 to the power 24 (the relative
  error of the normal numbers) plus 1 divided by 2 to the power 150 (half the distance
  of the subnormal numbers).
\<close>

definition rounding :: "(real \<Rightarrow> real) \<Rightarrow> bool" where
  "rounding fl \<longleftrightarrow>
     (\<forall>x. \<bar>x\<bar> \<le> 2 ^ 127 \<longrightarrow> \<bar>fl x - x\<bar> \<le> \<bar>x\<bar> / 2 ^ 24 + 1 / 2 ^ 150)"

text \<open>
  The rounding of \<^verbatim>\<open>float32\<close> itself, to the nearest number with ties to the
  even one: a \<^verbatim>\<open>float32\<close> number is a multiple of 2 to the power \<open>e - 23\<close>,
  where \<open>e\<close> is the exponent of its magnitude and at least -126. Overflow is left
  out (a number beyond the finite range is rounded like the others). It is a rounding
  in the sense above, and so is the identity, which is exact arithmetic.
\<close>

definition round_half_even :: "real \<Rightarrow> int" where
  "round_half_even y =
     (let n = \<lfloor>y\<rfloor>
      in if y - of_int n < 1 / 2 then n
         else if 1 / 2 < y - of_int n then n + 1
         else if even n then n else n + 1)"

definition round_float32 :: "real \<Rightarrow> real" where
  "round_float32 x =
     (if x = 0 then 0
      else (let e = max \<lfloor>log 2 \<bar>x\<bar>\<rfloor> (- 126);
                ulp = 2 powr (of_int e - 23)
            in of_int (round_half_even (x / ulp)) * ulp))"

text \<open>
  Modelled from the spec: \<^verbatim>\<open>transforms.Normalize(mean, std)\<close>, which is
  torchvision's and not in this repository. Per channel, \<open>(image - mean) / std\<close> on a
  tensor in channel, height, width order, with the constants and both operations rounded.
  torchvision raises a TypeError when the tensor is not a float tensor, a ValueError
  when a rounded std is zero, and torch a RuntimeError when the tensor does not have a
  channel for each mean (the shapes do not broadcast).
\<close>

definition mean :: "real list" where
  "mean = [0.485, 0.456, 0.406]"

definition std :: "real list" where
  "std = [0.229, 0.224, 0.225]"

definition normalize_array :: "(real \<Rightarrow> real) \<Rightarrow> real ndarray3 \<Rightarrow> py_error + real ndarray3" where
  "normalize_array fl t =
     (if list_ex (\<lambda>s. fl s = 0) std then Inl ValueError
      else if shape0 t \<noteq> length mean then Inl RuntimeError
      else Inr (build3 (shape0 t) (shape1 t) (shape2 t)
                  (\<lambda>c i j. fl (fl (at3 t c i j - fl (mean ! c)) / fl (std ! c)))))"

fun normalize :: "(real \<Rightarrow> real) \<Rightarrow> real tensor \<Rightarrow> py_error + real ndarray3" where
  "normalize fl (NumpyTensor d t) =
     (if is_floating_point d then normalize_array fl t else Inl TypeError)"
| "normalize fl (FloatTensor t) = normalize_array fl t"
| "normalize fl (IntTensor t) = Inl TypeError"

text \<open>
  Modelled from the spec: the inverse map of the standardization,
  \<open>image * std + mean\<close> per channel, which the spec calls reversing the
  standardization, in the same arithmetic. It is not part of the code.
\<close>

definition denormalize :: "(real \<Rightarrow> real) \<Rightarrow> real ndarray3 \<Rightarrow> real ndarray3" where
  "denormalize fl t =
     build3 (shape0 t) (shape1 t) (shape2 t)
       (\<lambda>c i j. fl (fl (at3 t c i j * fl (std ! c)) + fl (mean ! c)))"

subsection \<open>ToTensor.__call__\<close>

text \<open>
  The sample dictionaries: what \<^verbatim>\<open>__getitem__\<close> builds (the depth key is there
  in train mode only), and what \<^verbatim>\<open>__call__\<close> returns. \<^verbatim>\<open>__call__\<close> hands
  whatever object it finds under a key to to_tensor. The depth array may hold any kind
  of element: \<^verbatim>\<open>__call__\<close> only moves its elements.
\<close>

record 'd raw_sample =
  raw_image :: "real pic"
  raw_depth :: "'d pic option"
  raw_focal :: real

record 'd tensor_sample =
  tensor_image :: "real ndarray3"
  tensor_depth :: "'d tensor option"
  tensor_focal :: real

definition ToTensor_call ::
  "(real \<Rightarrow> real) \<Rightarrow> bool \<Rightarrow> 'd raw_sample \<Rightarrow> py_error + 'd tensor_sample" where
  "ToTensor_call fl is_test sample =
     (case to_tensor (raw_image sample) of
        Inl e \<Rightarrow> Inl e
      | Inr img \<Rightarrow>
          (case normalize fl img of
             Inl e \<Rightarrow> Inl e
           | Inr img \<Rightarrow>
               if \<not> is_test then
                 (case raw_depth sample of
                    None \<Rightarrow> Inl KeyError
                  | Some depth \<Rightarrow>
                      (case to_tensor depth of
                         Inl e \<Rightarrow> Inl e
                       | Inr depth \<Rightarrow>
                           Inr \<lparr>tensor_image = img, tensor_depth = Some depth,
                                tensor_focal = raw_focal sample\<rparr>))
               else Inr \<lparr>tensor_image = img, tensor_depth = None,
                         tensor_focal = raw_focal sample\<rparr>))"

section \<open>DataLoadPreprocess.__getitem__\<close>

text \<open>
  The options of \<^verbatim>\<open>args\<close> that the modelled code reads, and the transform the
  loader was built with: none, or \<^verbatim>\<open>Compose([ToTensor(is_test)])\<close>.
\<close>

record args =
  dataset :: string
  do_kb_crop :: bool
  input_height :: int
  input_width :: int

datatype 'd sample = RawSample "'d raw_sample" | TensorSample "'d tensor_sample"

definition apply_transform ::
  "(real \<Rightarrow> real) \<Rightarrow> bool option \<Rightarrow> 'd raw_sample \<Rightarrow> py_error + 'd sample" where
  "apply_transform fl transform sample =
     (case transform of
        None \<Rightarrow> Inr (RawSample sample)
      | Some is_test \<Rightarrow>
          (case ToTensor_call fl is_test sample of
             Inl e \<Rightarrow> Inl e
           | Inr t \<Rightarrow> Inr (TensorSample t)))"

text \<open>
  \<^verbatim>\<open>int(k / 2)\<close> for an integer \<open>k\<close>: the quotient, truncated towards zero.
\<close>

definition int_of_half :: "int \<Rightarrow> int" where
  "int_of_half k = (if 0 \<le> k then k div 2 else - ((- k) div 2))"

text \<open>\<^verbatim>\<open>np.expand_dims(a, axis=2)\<close> of a two-dimensional array.\<close>

definition expand_dims_2 :: "'a ndarray2 \<Rightarrow> 'a ndarray3" where
  "expand_dims_2 a =
     \<lparr>shape0 = rows2 a, shape1 = cols2 a, shape2 = 1,
      elems = map (map (\<lambda>v. [v])) (elems2 a)\<rparr>"

text \<open>
  What \<^verbatim>\<open>np.asarray(Image.open(image_path), dtype=np.float32)\<close> gives: a height
  by width array for an image file with one band (a greyscale one), a height by width
  by bands array for one with several (3 for RGB, 4 for RGBA). The code does not convert
  the image to RGB.
\<close>

datatype decoded_image = Decoded2 "real ndarray2" | Decoded3 "real ndarray3"

text \<open>
  Test mode (the \<^verbatim>\<open>else\<close> branch). Reading the manifest line and the image file
  is outside the model: \<open>decoded\<close> is the decoded image and \<open>focal\<close> the number parsed
  from the line's last token. The slice with three indices raises IndexError for an
  array with two dimensions.
\<close>

definition getitem_test ::
  "(real \<Rightarrow> real) \<Rightarrow> args \<Rightarrow> bool option \<Rightarrow> decoded_image \<Rightarrow> real \<Rightarrow> py_error + 'd sample" where
  "getitem_test fl a transform decoded focal =
     (case decoded of
        Decoded2 grey \<Rightarrow>
          (let img = map2d (\<lambda>v. v / 255) grey
           in if do_kb_crop a then Inl IndexError
              else apply_transform fl transform
                     \<lparr>raw_image = NdArray2 img, raw_depth = None, raw_focal = focal\<rparr>)
      | Decoded3 colour \<Rightarrow>
          (let img = map3 (\<lambda>v. v / 255) colour;
               img = (if do_kb_crop a
                      then (let height = int (shape0 img);
                                width = int (shape1 img);
                                top_margin = height - 352;
                                left_margin = int_of_half (width - 1216)
                            in slice_hw top_margin (top_margin + 352)
                                 left_margin (left_margin + 1216) img)
                      else img)
           in apply_transform fl transform
                \<lparr>raw_image = NdArray3 float32_array img, raw_depth = None,
                 raw_focal = focal\<rparr>))"

text \<open>
  Train mode, from the conversion to arrays on (the decoding, the PIL crops and the
  rotation before it are calls into PIL): \<open>image_px\<close> and \<open>depth_px\<close> are
  \<^verbatim>\<open>np.asarray(image, dtype=np.float32)\<close> and
  \<^verbatim>\<open>np.asarray(depth_gt, dtype=np.float32)\<close>, the decoded raw values of an
  image with several bands and of a depth map with one, and the rest are the generator's
  outputs in the order they are drawn.
\<close>

definition getitem_train ::
  "(real \<Rightarrow> real) \<Rightarrow> args \<Rightarrow> bool option \<Rightarrow> real ndarray3 \<Rightarrow> real ndarray2 \<Rightarrow> real \<Rightarrow>
     nat \<Rightarrow> nat \<Rightarrow> real \<Rightarrow> real \<Rightarrow> real \<Rightarrow> real \<Rightarrow> real \<times> real \<times> real \<Rightarrow>
     py_error + real sample" where
  "getitem_train fl a transform image_px depth_px focal rx ry
       do_flip do_augment u_gamma u_brightness u_colors =
     (let img = map3 (\<lambda>v. v / 255) image_px;
          depth_gt = expand_dims_2 depth_px;
          depth_gt = (if dataset a = ''nyu'' then map3 (\<lambda>v. v / 1000) depth_gt
                      else map3 (\<lambda>v. v / 256) depth_gt)
      in case random_crop img depth_gt (input_height a) (input_width a) rx ry of
           Inl e \<Rightarrow> Inl e
         | Inr (img, depth_gt) \<Rightarrow>
             (case train_preprocess_arrays (dataset a) img depth_gt do_flip do_augment
                     u_gamma u_brightness u_colors of
                Inl e \<Rightarrow> Inl e
              | Inr (img, depth_gt) \<Rightarrow>
                  apply_transform fl transform
                    \<lparr>raw_image = NdArray3 float32_array img,
                     raw_depth = Some (NdArray3 float32_array depth_gt),
                     raw_focal = focal\<rparr>))"

text \<open>
  The depth a sample holds, read by position: its height and width, and its value at
  row \<open>i\<close> and column \<open>j\<close>. An array sample keeps the depth as height by width by 1,
  a tensor sample as 1 by height by width. A sample without a depth has neither.
\<close>

fun depth_size :: "'d sample \<Rightarrow> (nat \<times> nat) option" where
  "depth_size (RawSample r) =
     (case raw_depth r of
        Some (NdArray3 m d) \<Rightarrow> Some (shape0 d, shape1 d)
      | _ \<Rightarrow> None)"
| "depth_size (TensorSample t) =
     (case tensor_depth t of
        Some (NumpyTensor dt d) \<Rightarrow> Some (shape1 d, shape2 d)
      | _ \<Rightarrow> None)"

fun depth_at :: "'d sample \<Rightarrow> nat \<Rightarrow> nat \<Rightarrow> 'd option" where
  "depth_at (RawSample r) i j =
     (case raw_depth r of
        Some (NdArray3 m d) \<Rightarrow> Some (at3 d i j 0)
      | _ \<Rightarrow> None)"
| "depth_at (TensorSample t) i j =
     (case tensor_depth t of
        Some (NumpyTensor dt d) \<Rightarrow> Some (at3 d 0 i j)
      | _ \<Rightarrow> None)"

text \<open>
  The window of \<open>h\<close> rows and \<open>w\<close> columns whose top left corner is at row \<open>y\<close>
  and column \<open>x\<close>: what a crop at offset \<open>(x, y)\<close> is meant to return.
\<close>

definition window :: "nat \<Rightarrow> nat \<Rightarrow> nat \<Rightarrow> nat \<Rightarrow> 'a list list \<Rightarrow> 'a list list" where
  "window y x h w rows = map (\<lambda>row. take w (drop x row)) (take h (drop y rows))"

section \<open>Properties\<close>

subsection \<open>Arrays and slices\<close>

lemma adjust_index_nonneg: "0 \<le> i \<Longrightarrow> i \<le> int n \<Longrightarrow> adjust_index n i = nat i"
  by (auto simp: adjust_index_def)

lemma adjust_index_le: "adjust_index n i \<le> n"
  by (auto simp: adjust_index_def)

lemma length_py_slice: "length (py_slice i j xs) = slice_len (length xs) i j"
  using adjust_index_le [of "length xs" j]
  by (auto simp: py_slice_def slice_len_def Let_def)

lemma py_slice_window:
  assumes "0 \<le> i" "0 \<le> n" "i + n \<le> int (length xs)"
  shows "py_slice i (i + n) xs = take (nat n) (drop (nat i) xs)"
proof -
  have "adjust_index (length xs) i = nat i"
    using assms by (intro adjust_index_nonneg) auto
  moreover have "adjust_index (length xs) (i + n) = nat (i + n)"
    using assms by (intro adjust_index_nonneg) auto
  moreover have "nat (i + n) - nat i = nat n"
    using assms by linarith
  ultimately show ?thesis
    by (simp add: py_slice_def Let_def)
qed

lemma slice_len_window:
  assumes "0 \<le> i" "0 \<le> n" "i + n \<le> int m"
  shows "slice_len m i (i + n) = nat n"
proof -
  have "adjust_index m i = nat i"
    using assms by (intro adjust_index_nonneg) auto
  moreover have "adjust_index m (i + n) = nat (i + n)"
    using assms by (intro adjust_index_nonneg) auto
  moreover have "nat (i + n) - nat i = nat n"
    using assms by linarith
  ultimately show ?thesis
    by (simp add: slice_len_def)
qed

lemma set_py_slice: "set (py_slice i j xs) \<subseteq> set xs"
  by (auto simp: py_slice_def Let_def dest: in_set_takeD in_set_dropD)

lemma well_shaped_slice_hw:
  assumes "well_shaped a"
  shows "well_shaped (slice_hw y0 y1 x0 x1 a)"
proof -
  have rows: "length (py_slice y0 y1 (elems a)) = slice_len (shape0 a) y0 y1"
    using assms by (simp add: length_py_slice well_shaped_def)
  have each: "length (py_slice x0 x1 row) = slice_len (shape1 a) x0 x1 \<and>
      (\<forall>px \<in> set (py_slice x0 x1 row). length px = shape2 a)"
    if "row \<in> set (py_slice y0 y1 (elems a))" for row
  proof -
    have "row \<in> set (elems a)" using that set_py_slice [of y0 y1 "elems a"] by blast
    then have "length row = shape1 a" and "\<forall>px \<in> set row. length px = shape2 a"
      using assms by (auto simp: well_shaped_def list_all_iff)
    then show ?thesis using set_py_slice [of x0 x1 row] by (auto simp: length_py_slice)
  qed
  show ?thesis
    using rows each by (simp add: well_shaped_def slice_hw_def list_all_iff)
qed

lemma well_shaped_rowD:
  "well_shaped a \<Longrightarrow> i < shape0 a \<Longrightarrow> length (elems a ! i) = shape1 a"
  by (auto simp: well_shaped_def list_all_iff)

lemma well_shaped_pxD:
  assumes "well_shaped a" "i < shape0 a" "j < shape1 a"
  shows "length (elems a ! i ! j) = shape2 a"
proof -
  have "elems a ! i \<in> set (elems a)" using assms by (simp add: well_shaped_def)
  then have "length (elems a ! i) = shape1 a" "\<forall>px \<in> set (elems a ! i). length px = shape2 a"
    using assms by (auto simp: well_shaped_def list_all_iff)
  then show ?thesis using assms by simp
qed

lemma randint_range:
  assumes "a \<le> b"
  shows "\<exists>n. randint a b r = Inr n \<and> a \<le> n \<and> n \<le> b"
proof -
  have "0 < nat (b - a + 1)" using assms by simp
  then have "r mod nat (b - a + 1) < nat (b - a + 1)" by simp
  then have "int (r mod nat (b - a + 1)) \<le> b - a" by linarith
  then show ?thesis using assms by (simp add: randint_def)
qed

lemma slice_hw_window:
  assumes "well_shaped a"
    and "0 \<le> y" "0 \<le> h" "y + h \<le> int (shape0 a)"
    and "0 \<le> x" "0 \<le> w" "x + w \<le> int (shape1 a)"
  shows "slice_hw y (y + h) x (x + w) a =
     \<lparr>shape0 = nat h, shape1 = nat w, shape2 = shape2 a,
      elems = window (nat y) (nat x) (nat h) (nat w) (elems a)\<rparr>"
proof -
  have len: "length (elems a) = shape0 a"
    using assms(1) by (simp add: well_shaped_def)
  have outer: "py_slice y (y + h) (elems a) = take (nat h) (drop (nat y) (elems a))"
    using assms(2-4) len by (intro py_slice_window) auto
  have inner: "py_slice x (x + w) row = take (nat w) (drop (nat x) row)"
    if "row \<in> set (take (nat h) (drop (nat y) (elems a)))" for row
  proof -
    have "row \<in> set (elems a)"
      using that by (auto dest: in_set_takeD in_set_dropD)
    then have "length row = shape1 a"
      using assms(1) by (auto simp: well_shaped_def list_all_iff)
    then show ?thesis
      using assms(5-7) by (intro py_slice_window) auto
  qed
  have "map (py_slice x (x + w)) (py_slice y (y + h) (elems a)) =
      window (nat y) (nat x) (nat h) (nat w) (elems a)"
    unfolding outer window_def using inner by (intro map_cong) auto
  moreover have "slice_len (shape0 a) y (y + h) = nat h"
    using assms(2-4) by (rule slice_len_window)
  moreover have "slice_len (shape1 a) x (x + w) = nat w"
    using assms(5-7) by (rule slice_len_window)
  ultimately show ?thesis
    by (simp add: slice_hw_def)
qed

subsection \<open>random_crop\<close>

text \<open>
  Claim C1. For an image array and a depth array with the same height and width, both
  at least the target height and width (sizes, so not negative), random_crop raises no
  assertion, whatever the generator returns: it returns an image and a depth array of
  exactly the target height and width, with their channels unchanged, and both are the
  window at one and the same offset \<open>(x, y)\<close> of their inputs, an offset at which the
  window fits.
\<close>

theorem random_crop_same_window:
  assumes "well_shaped img" and "well_shaped depth"
    and "shape0 depth = shape0 img" and "shape1 depth = shape1 img"
    and "0 \<le> height" and "height \<le> int (shape0 img)"
    and "0 \<le> width" and "width \<le> int (shape1 img)"
  shows "\<exists>x y img' depth'.
     random_crop img depth height width rx ry = Inr (img', depth') \<and>
     x + nat width \<le> shape1 img \<and> y + nat height \<le> shape0 img \<and>
     shape0 img' = nat height \<and> shape1 img' = nat width \<and> shape2 img' = shape2 img \<and>
     shape0 depth' = nat height \<and> shape1 depth' = nat width \<and> shape2 depth' = shape2 depth \<and>
     well_shaped img' \<and> well_shaped depth' \<and>
     elems img' = window y x (nat height) (nat width) (elems img) \<and>
     elems depth' = window y x (nat height) (nat width) (elems depth)"
proof -
  obtain x where x: "randint 0 (int (shape1 img) - width) rx = Inr x"
      "0 \<le> x" "x \<le> int (shape1 img) - width"
    using randint_range [of 0 "int (shape1 img) - width" rx] assms(8) by auto
  obtain y where y: "randint 0 (int (shape0 img) - height) ry = Inr y"
      "0 \<le> y" "y \<le> int (shape0 img) - height"
    using randint_range [of 0 "int (shape0 img) - height" ry] assms(6) by auto
  let ?img = "slice_hw y (y + height) x (x + width) img"
  let ?depth = "slice_hw y (y + height) x (x + width) depth"
  have run: "random_crop img depth height width rx ry = Inr (?img, ?depth)"
    using assms(3,4,6,8) x(1) y(1) by (simp add: random_crop_def)
  have img: "?img = \<lparr>shape0 = nat height, shape1 = nat width, shape2 = shape2 img,
      elems = window (nat y) (nat x) (nat height) (nat width) (elems img)\<rparr>"
    using assms(1,5,7) x(2,3) y(2,3) by (intro slice_hw_window) auto
  have depth: "?depth = \<lparr>shape0 = nat height, shape1 = nat width, shape2 = shape2 depth,
      elems = window (nat y) (nat x) (nat height) (nat width) (elems depth)\<rparr>"
    using assms(2,3,4,5,7) x(2,3) y(2,3) by (intro slice_hw_window) auto
  have fits: "nat x + nat width \<le> shape1 img" "nat y + nat height \<le> shape0 img"
    using x(2,3) y(2,3) assms(5,7) by linarith+
  have ws: "well_shaped ?img" "well_shaped ?depth"
    using assms(1,2) by (simp_all add: well_shaped_slice_hw)
  have "random_crop img depth height width rx ry = Inr (?img, ?depth) \<and>
     nat x + nat width \<le> shape1 img \<and> nat y + nat height \<le> shape0 img \<and>
     shape0 ?img = nat height \<and> shape1 ?img = nat width \<and> shape2 ?img = shape2 img \<and>
     shape0 ?depth = nat height \<and> shape1 ?depth = nat width \<and> shape2 ?depth = shape2 depth \<and>
     well_shaped ?img \<and> well_shaped ?depth \<and>
     elems ?img = window (nat y) (nat x) (nat height) (nat width) (elems img) \<and>
     elems ?depth = window (nat y) (nat x) (nat height) (nat width) (elems depth)"
    using run fits ws by (simp add: img depth)
  then show ?thesis by blast
qed

text \<open>
  The theorem at a 2 by 3 image with two channels and a depth array with one, cropped
  to 1 by 2.
\<close>

theorem random_crop_same_window_witness:
  "well_shaped \<lparr>shape0 = 2, shape1 = 3, shape2 = 2,
       elems = [[[1, 2], [3, 4], [5, 6]], [[7, 8], [9, 10], [11, 12 :: nat]]]\<rparr> \<and>
   well_shaped \<lparr>shape0 = 2, shape1 = 3, shape2 = 1,
       elems = [[[10], [20], [30]], [[40], [50], [60 :: int]]]\<rparr> \<and>
   (\<exists>x y img' depth'.
     random_crop
       \<lparr>shape0 = 2, shape1 = 3, shape2 = 2,
         elems = [[[1, 2], [3, 4], [5, 6]], [[7, 8], [9, 10], [11, 12 :: nat]]]\<rparr>
       \<lparr>shape0 = 2, shape1 = 3, shape2 = 1,
         elems = [[[10], [20], [30]], [[40], [50], [60 :: int]]]\<rparr> 1 2 4 3 = Inr (img', depth') \<and>
     x + 2 \<le> (3 :: nat) \<and> y + 1 \<le> (2 :: nat) \<and>
     shape0 img' = 1 \<and> shape1 img' = 2 \<and> shape2 img' = 2 \<and>
     shape0 depth' = 1 \<and> shape1 depth' = 2 \<and> shape2 depth' = 1 \<and>
     elems img' = window y x 1 2 [[[1, 2], [3, 4], [5, 6]], [[7, 8], [9, 10], [11, 12]]] \<and>
     elems depth' = window y x 1 2 [[[10], [20], [30]], [[40], [50], [60]]])"
proof -
  let ?img = "\<lparr>shape0 = 2, shape1 = 3, shape2 = 2,
       elems = [[[1, 2], [3, 4], [5, 6]], [[7, 8], [9, 10], [11, 12 :: nat]]]\<rparr>"
  let ?depth = "\<lparr>shape0 = 2, shape1 = 3, shape2 = 1,
       elems = [[[10], [20], [30]], [[40], [50], [60 :: int]]]\<rparr>"
  have wi: "well_shaped ?img" and wd: "well_shaped ?depth"
    by (simp_all add: well_shaped_def)
  from random_crop_same_window [OF wi wd, of 1 2 4 3]
  show ?thesis using wi wd by simp blast
qed

text \<open>The same call, computed: the draws 4 and 3 give the offset \<open>x = 0\<close>, \<open>y = 1\<close>.\<close>

lemma random_crop_example:
  "random_crop
     \<lparr>shape0 = 2, shape1 = 3, shape2 = 2,
       elems = [[[1, 2], [3, 4], [5, 6]], [[7, 8], [9, 10], [11, 12 :: nat]]]\<rparr>
     \<lparr>shape0 = 2, shape1 = 3, shape2 = 1,
       elems = [[[10], [20], [30]], [[40], [50], [60 :: int]]]\<rparr> 1 2 4 3 =
   Inr (\<lparr>shape0 = 1, shape1 = 2, shape2 = 2, elems = [[[7, 8], [9, 10]]]\<rparr>,
        \<lparr>shape0 = 1, shape1 = 2, shape2 = 1, elems = [[[40], [50]]]\<rparr>)"
  by (simp add: random_crop_def randint_def slice_hw_def slice_len_def py_slice_def
      adjust_index_def Let_def)

subsection \<open>Arrays given by their elements\<close>

lemma shape_build3 [simp]:
  "shape0 (build3 h w c f) = h" "shape1 (build3 h w c f) = w" "shape2 (build3 h w c f) = c"
  by (simp_all add: build3_def)

lemma well_shaped_build3: "well_shaped (build3 h w c f)"
  by (simp add: well_shaped_def build3_def list_all_iff)

lemma at3_build3: "i < h \<Longrightarrow> j < w \<Longrightarrow> k < c \<Longrightarrow> at3 (build3 h w c f) i j k = f i j k"
  by (simp add: at3_def build3_def)

lemma build3_cong:
  assumes "\<And>i j k. i < h \<Longrightarrow> j < w \<Longrightarrow> k < c \<Longrightarrow> f i j k = g i j k"
  shows "build3 h w c f = build3 h w c g"
  using assms by (simp add: build3_def)

lemma build3_at3:
  assumes "well_shaped a"
  shows "build3 (shape0 a) (shape1 a) (shape2 a) (at3 a) = a"
proof -
  have px: "map (\<lambda>k. elems a ! i ! j ! k) [0..<shape2 a] = elems a ! i ! j"
    if "i < shape0 a" "j < shape1 a" for i j
    using well_shaped_pxD [OF assms that] by (metis map_nth)
  have row: "map (\<lambda>j. map (\<lambda>k. elems a ! i ! j ! k) [0..<shape2 a]) [0..<shape1 a] = elems a ! i"
    if "i < shape0 a" for i
  proof -
    have "map (\<lambda>j. map (\<lambda>k. elems a ! i ! j ! k) [0..<shape2 a]) [0..<shape1 a] =
        map (\<lambda>j. elems a ! i ! j) [0..<shape1 a]"
      using px [OF that] by simp
    also have "\<dots> = elems a ! i"
      using well_shaped_rowD [OF assms that] by (metis map_nth)
    finally show ?thesis .
  qed
  have "map (\<lambda>i. map (\<lambda>j. map (\<lambda>k. elems a ! i ! j ! k) [0..<shape2 a]) [0..<shape1 a])
      [0..<shape0 a] = map (\<lambda>i. elems a ! i) [0..<shape0 a]"
    using row by simp
  also have "\<dots> = elems a"
    using assms by (metis map_nth well_shaped_def)
  finally show ?thesis
    by (simp add: build3_def at3_def)
qed

lemma all3_build3:
  "all3 P (build3 h w c f) \<longleftrightarrow> (\<forall>i<h. \<forall>j<w. \<forall>k<c. P (f i j k))"
  by (auto simp: all3_def build3_def list_all_iff)

lemma shape_map3 [simp]:
  "shape0 (map3 f a) = shape0 a" "shape1 (map3 f a) = shape1 a" "shape2 (map3 f a) = shape2 a"
  by (simp_all add: map3_def)

lemma well_shaped_map3: "well_shaped a \<Longrightarrow> well_shaped (map3 f a)"
  by (auto simp: well_shaped_def map3_def list_all_iff)

lemma all3_map3: "all3 P (map3 f a) \<longleftrightarrow> all3 (\<lambda>v. P (f v)) a"
  by (simp add: all3_def map3_def list_all_iff)

lemma all3_mono: "all3 P a \<Longrightarrow> (\<And>v. P v \<Longrightarrow> Q v) \<Longrightarrow> all3 Q a"
  by (auto simp: all3_def list_all_iff)

lemma hflip_hflip: "hflip (hflip a) = a"
  by (simp add: hflip_def comp_def)

lemma shape_hflip [simp]:
  "shape0 (hflip a) = shape0 a" "shape1 (hflip a) = shape1 a" "shape2 (hflip a) = shape2 a"
  by (simp_all add: hflip_def)

subsection \<open>augment_image\<close>

lemma upt_0_3: "[0..<3] = [0, 1, 2]"
  by (simp add: upt_rec)

lemma broadcast_index_same: "i < d \<Longrightarrow> broadcast_index d i = i"
  by (simp add: broadcast_index_def)

lemma stack_axis2_three:
  assumes "rows2 b = rows2 a" "cols2 b = cols2 a" "rows2 c = rows2 a" "cols2 c = cols2 a"
  shows "stack_axis2 [a, b, c] =
     Inr (build3 (rows2 a) (cols2 a) 3 (\<lambda>i j k. elems2 ([a, b, c] ! k) ! i ! j))"
  using assms by (simp add: stack_axis2_def numeral_3_eq_3)

lemma stack_colors:
  "stack_axis2 (map (\<lambda>i. map2d (\<lambda>v. v * colors ! i) (ones2 h w)) [0..<3]) =
     Inr (color_image_of h w colors)"
proof -
  let ?a = "\<lambda>i. map2d (\<lambda>v. v * colors ! i) (ones2 h w)"
  have shape: "rows2 (?a i) = h" "cols2 (?a i) = w" for i
    by (simp_all add: map2d_def ones2_def)
  have "stack_axis2 [?a 0, ?a 1, ?a 2] =
      Inr (build3 h w 3 (\<lambda>i j k. elems2 ([?a 0, ?a 1, ?a 2] ! k) ! i ! j))"
    using stack_axis2_three [of "?a 1" "?a 0" "?a 2"] by (simp only: shape)
  also have "build3 h w 3 (\<lambda>i j k. elems2 ([?a 0, ?a 1, ?a 2] ! k) ! i ! j) =
      build3 h w 3 (\<lambda>i j k. colors ! k)"
  proof (rule build3_cong)
    fix i j k :: nat
    assume "i < h" "j < w" "k < 3"
    then have "k = 0 \<or> k = 1 \<or> k = 2" by arith
    then show "elems2 ([?a 0, ?a 1, ?a 2] ! k) ! i ! j = colors ! k"
      using \<open>i < h\<close> \<open>j < w\<close> by (auto simp: map2d_def ones2_def)
  qed
  finally show ?thesis
    by (simp add: upt_0_3 color_image_of_def)
qed

lemma imul_color_image:
  assumes "shape2 a = 3" "h = shape0 a" "w = shape1 a"
  shows "imul a (color_image_of h w colors) =
     Inr (build3 (shape0 a) (shape1 a) 3 (\<lambda>i j k. at3 a i j k * colors ! k))"
proof -
  have "build3 (shape0 a) (shape1 a) 3
      (\<lambda>i j k. at3 a i j k *
         at3 (color_image_of (shape0 a) (shape1 a) colors)
           (broadcast_index (shape0 a) i) (broadcast_index (shape1 a) j) (broadcast_index 3 k)) =
    build3 (shape0 a) (shape1 a) 3 (\<lambda>i j k. at3 a i j k * colors ! k)"
    by (rule build3_cong) (simp add: broadcast_index_same color_image_of_def at3_build3)
  then show ?thesis
    using assms by (simp add: imul_def color_image_of_def)
qed

lemma imul_color_image_error:
  assumes "shape2 a \<noteq> 3" "h = shape0 a" "w = shape1 a"
  shows "imul a (color_image_of h w colors) = Inl ValueError"
  using assms by (simp add: imul_def color_image_of_def)

lemma augment_image_run:
  assumes "img < length s"
  shows "augment_image ds s img ug ub (u0, u1, u2) =
    (let a = s ! img;
         a1 = map3 (\<lambda>v. v powr uniform 0.9 1.1 ug) a;
         a2 = map3 (\<lambda>v. v * (if ds = ''nyu'' then uniform 0.75 1.25 ub
                                else uniform 0.9 1.1 ub)) a1;
         colors = [uniform 0.9 1.1 u0, uniform 0.9 1.1 u1, uniform 0.9 1.1 u2];
         c = color_image_of (shape0 a) (shape1 a) colors;
         p = build3 (shape0 a) (shape1 a) 3 (\<lambda>i j k. at3 a2 i j k * colors ! k)
     in if shape2 a = 3
        then (s @ [a1, p, c, clip p 0 1], Inr (length s + 3))
        else (s @ [a1, a2, c], Inl ValueError))"
proof (cases "ds = ''nyu''")
  case nyu: True
  show ?thesis
  proof (cases "shape2 (s ! img) = 3")
    case True
    then show ?thesis
      using assms nyu
      by (simp add: augment_image_def alloc_def Let_def nth_append list_update_append stack_colors
          imul_color_image)
  next
    case False
    then show ?thesis
      using assms nyu
      by (simp add: augment_image_def alloc_def Let_def nth_append list_update_append stack_colors
          imul_color_image_error)
  qed
next
  case other: False
  show ?thesis
  proof (cases "shape2 (s ! img) = 3")
    case True
    then show ?thesis
      using assms other
      by (simp add: augment_image_def alloc_def Let_def nth_append list_update_append stack_colors
          imul_color_image)
  next
    case False
    then show ?thesis
      using assms other
      by (simp add: augment_image_def alloc_def Let_def nth_append list_update_append stack_colors
          imul_color_image_error)
  qed
qed

lemma augment_image_frame:
  assumes "img < length s"
  shows "\<exists>s' r. augment_image ds s img ug ub uc = (s', r) \<and>
     take (length s) s' = s \<and> length s < length s' \<and>
     (\<forall>q. r = Inr q \<longrightarrow> length s \<le> q \<and> q < length s')"
proof -
  obtain u0 u1 u2 where uc: "uc = (u0, u1, u2)"
    by (cases uc) auto
  show ?thesis
    unfolding uc augment_image_run [OF assms]
    by (cases "shape2 (s ! img) = 3") (simp_all add: Let_def)
qed

lemma nth_of_prefix:
  assumes "take n s' = s" "p < length s" "n = length s"
  shows "s' ! p = s ! p"
  using assms by (metis nth_take)

text \<open>
  Claim C10. augment_image does not modify its argument: whatever it is given and
  whether it returns or raises, the array at the argument's address is afterwards what
  it was before, as is every array the store held before the call, and the array it
  returns is at an address that was not in use before the call.
\<close>

theorem augment_image_keeps_argument:
  assumes "img < length s"
  shows "\<exists>s' r. augment_image ds s img ug ub uc = (s', r) \<and>
     s' ! img = s ! img \<and> take (length s) s' = s \<and>
     (\<forall>q. r = Inr q \<longrightarrow> length s \<le> q \<and> q < length s')"
proof -
  obtain s' r where run: "augment_image ds s img ug ub uc = (s', r)"
      and frame: "take (length s) s' = s"
      and fresh: "\<forall>q. r = Inr q \<longrightarrow> length s \<le> q \<and> q < length s'"
    using augment_image_frame [OF assms] by blast
  have "s' ! img = s ! img"
    using frame assms by (rule nth_of_prefix) simp
  then show ?thesis
    using run frame fresh by blast
qed

text \<open>The theorem at a one-pixel image, where the call returns the new address 4.\<close>

theorem augment_image_keeps_argument_witness:
  "\<exists>s'. augment_image ''kitti''
       [\<lparr>shape0 = 1, shape1 = 1, shape2 = 3, elems = [[[0, 1 / 2, 1]]]\<rparr>] 0
       (1 / 2) (1 / 2) (0, 1 / 2, 1) = (s', Inr 4) \<and>
     s' ! 0 = \<lparr>shape0 = 1, shape1 = 1, shape2 = 3, elems = [[[0, 1 / 2, 1]]]\<rparr> \<and>
     take 1 s' = [\<lparr>shape0 = 1, shape1 = 1, shape2 = 3, elems = [[[0, 1 / 2, 1]]]\<rparr>]"
proof -
  let ?a = "\<lparr>shape0 = 1, shape1 = 1, shape2 = 3, elems = [[[0, 1 / 2, 1 :: real]]]\<rparr>"
  let ?run = "augment_image ''kitti'' [?a] 0 (1 / 2) (1 / 2) (0, 1 / 2, 1)"
  have valid: "0 < length [?a]" by simp
  have "\<exists>s' r. ?run = (s', r) \<and> s' ! 0 = [?a] ! 0 \<and> take (length [?a]) s' = [?a] \<and>
      (\<forall>q. r = Inr q \<longrightarrow> length [?a] \<le> q \<and> q < length s')"
    by (rule augment_image_keeps_argument [OF valid])
  then obtain s' r where run: "?run = (s', r)"
      and keep: "s' ! 0 = [?a] ! 0" "take (length [?a]) s' = [?a]"
    by (elim exE conjE)
  have "snd ?run = Inr 4"
    unfolding augment_image_run [OF valid] by (simp add: Let_def)
  then have "r = Inr 4" using run by simp
  then show ?thesis using run keep by simp
qed

lemma clip_unit: "all3 (\<lambda>v. 0 \<le> v \<and> v \<le> 1) (clip a 0 1)"
  unfolding clip_def all3_map3 by (simp add: all3_def list_all_iff)

lemma well_shaped_clip: "well_shaped a \<Longrightarrow> well_shaped (clip a lo hi)"
  by (simp add: clip_def well_shaped_map3)

text \<open>
  The draws: as \<open>u\<close> runs over the unit interval, \<open>uniform a b u\<close> runs over the
  whole of \<open>[a, b]\<close> and nothing else.
\<close>

lemma uniform_range:
  assumes "0 \<le> u" "u \<le> 1" "a \<le> b"
  shows "a \<le> uniform a b u \<and> uniform a b u \<le> b"
proof -
  have "0 \<le> (b - a) * u" using assms by simp
  moreover have "(b - a) * u \<le> (b - a) * 1"
    using assms by (intro mult_left_mono) auto
  ultimately show ?thesis by (simp add: uniform_def)
qed

lemma uniform_onto:
  assumes "a < b" "a \<le> x" "x \<le> b"
  shows "\<exists>u. 0 \<le> u \<and> u \<le> 1 \<and> uniform a b u = x"
proof -
  let ?u = "(x - a) / (b - a)"
  have "0 \<le> ?u" "?u \<le> 1" using assms by simp_all
  moreover have "uniform a b ?u = x" using assms by (simp add: uniform_def)
  ultimately show ?thesis by blast
qed

text \<open>
  Claim C5. For an image (height by width by 3) with values in \<open>[0, 1]\<close> and any
  draws of the generator, that is any gamma in \<open>[0.9, 1.1]\<close>, any brightness in
  \<open>[0.9, 1.1]\<close> (\<open>[0.75, 1.25]\<close> for nyu) and any three colour factors in
  \<open>[0.9, 1.1]\<close>, augment_image returns an array of the same shape whose values all
  lie in \<open>[0, 1]\<close>.
\<close>

theorem augment_image_within_unit:
  assumes "img < length s" and "well_shaped (s ! img)" and "shape2 (s ! img) = 3"
    and "all3 (\<lambda>v. 0 \<le> v \<and> v \<le> 1) (s ! img)"
    and "0 \<le> ug \<and> ug \<le> 1" and "0 \<le> ub \<and> ub \<le> 1"
    and "0 \<le> u0 \<and> u0 \<le> 1" and "0 \<le> u1 \<and> u1 \<le> 1" and "0 \<le> u2 \<and> u2 \<le> 1"
  shows "\<exists>s' q. augment_image ds s img ug ub (u0, u1, u2) = (s', Inr q) \<and> q < length s' \<and>
     all3 (\<lambda>v. 0 \<le> v \<and> v \<le> 1) (s' ! q) \<and> well_shaped (s' ! q) \<and>
     shape0 (s' ! q) = shape0 (s ! img) \<and> shape1 (s' ! q) = shape1 (s ! img) \<and>
     shape2 (s' ! q) = 3"
proof -
  let ?a2 = "map3 (\<lambda>v. v * (if ds = ''nyu'' then uniform 0.75 1.25 ub else uniform 0.9 1.1 ub))
      (map3 (\<lambda>v. v powr uniform 0.9 1.1 ug) (s ! img))"
  let ?colors = "[uniform 0.9 1.1 u0, uniform 0.9 1.1 u1, uniform 0.9 1.1 u2]"
  let ?p = "build3 (shape0 (s ! img)) (shape1 (s ! img)) 3 (\<lambda>i j k. at3 ?a2 i j k * ?colors ! k)"
  let ?s' = "s @ [map3 (\<lambda>v. v powr uniform 0.9 1.1 ug) (s ! img), ?p,
      color_image_of (shape0 (s ! img)) (shape1 (s ! img)) ?colors, clip ?p 0 1]"
  have run: "augment_image ds s img ug ub (u0, u1, u2) = (?s', Inr (length s + 3))"
    unfolding augment_image_run [OF assms(1)] using assms(3) by (simp add: Let_def)
  have result: "?s' ! (length s + 3) = clip ?p 0 1"
    by (simp add: nth_append)
  have "well_shaped (clip ?p 0 1)"
    by (intro well_shaped_clip well_shaped_build3)
  moreover have "all3 (\<lambda>v. 0 \<le> v \<and> v \<le> 1) (clip ?p 0 1)"
    by (rule clip_unit)
  moreover have "shape0 (clip ?p 0 1) = shape0 (s ! img)" "shape1 (clip ?p 0 1) = shape1 (s ! img)"
      "shape2 (clip ?p 0 1) = 3"
    by (simp_all add: clip_def)
  moreover have "length s + 3 < length ?s'"
    by simp
  ultimately show ?thesis
    using run result by (metis (no_types, lifting))
qed

text \<open>The theorem at a one-pixel image.\<close>

theorem augment_image_within_unit_witness:
  "well_shaped \<lparr>shape0 = 1, shape1 = 1, shape2 = 3, elems = [[[0, 1 / 2, 1 :: real]]]\<rparr> \<and>
   all3 (\<lambda>v. 0 \<le> v \<and> v \<le> 1)
     \<lparr>shape0 = 1, shape1 = 1, shape2 = 3, elems = [[[0, 1 / 2, 1 :: real]]]\<rparr> \<and>
   (\<exists>s' q. augment_image ''nyu''
       [\<lparr>shape0 = 1, shape1 = 1, shape2 = 3, elems = [[[0, 1 / 2, 1]]]\<rparr>] 0
       (1 / 2) 1 (0, 1 / 2, 1) = (s', Inr q) \<and> q < length s' \<and>
     all3 (\<lambda>v. 0 \<le> v \<and> v \<le> 1) (s' ! q) \<and> well_shaped (s' ! q) \<and>
     shape0 (s' ! q) = 1 \<and> shape1 (s' ! q) = 1 \<and> shape2 (s' ! q) = 3)"
proof -
  let ?a = "\<lparr>shape0 = 1, shape1 = 1, shape2 = 3, elems = [[[0, 1 / 2, 1 :: real]]]\<rparr>"
  have ws: "well_shaped ?a" by (simp add: well_shaped_def)
  have unit: "all3 (\<lambda>v. 0 \<le> v \<and> v \<le> 1) ?a" by (simp add: all3_def)
  from augment_image_within_unit [of 0 "[?a]" "1 / 2" 1 0 "1 / 2" 1 "''nyu''"]
  show ?thesis using ws unit by simp
qed

subsection \<open>train_preprocess\<close>

lemma augment_image_result:
  assumes "img < length s" "shape2 (s ! img) = 3"
  shows "\<exists>s'. augment_image ds s img ug ub uc = (s', Inr (length s + 3)) \<and>
     take (length s) s' = s \<and> length s' = length s + 4 \<and>
     shape0 (s' ! (length s + 3)) = shape0 (s ! img) \<and>
     shape1 (s' ! (length s + 3)) = shape1 (s ! img) \<and>
     shape2 (s' ! (length s + 3)) = 3"
proof -
  obtain u0 u1 u2 where uc: "uc = (u0, u1, u2)"
    by (cases uc) auto
  show ?thesis
    unfolding uc augment_image_run [OF assms(1)] using assms(2)
    by (simp add: Let_def nth_append clip_def)
qed

lemma train_preprocess_flip_only:
  assumes "do_flip > 0.5" "\<not> do_augment > 0.5" "depth_gt < length s"
  shows "train_preprocess ds s img depth_gt do_flip do_augment ug ub uc =
     (s @ [hflip (s ! img), hflip (s ! depth_gt)], Inr (length s, length s + 1))"
  using assms by (simp add: train_preprocess_def alloc_def Let_def nth_append)

text \<open>
  Claim C6. The horizontal-flip step of train_preprocess (the flip drawn, the
  augmentation not drawn), applied to an image and a depth array and then again to the
  arrays it returned, returns arrays equal to the arrays before the first flip; after
  one step they are the mirrored arrays.
\<close>

theorem train_preprocess_flip_twice:
  assumes "img < length s" and "depth_gt < length s"
    and "do_flip > 0.5" and "do_augment \<le> 0.5"
    and "do_flip' > 0.5" and "do_augment' \<le> 0.5"
  shows "\<exists>s1 img1 depth1 s2 img2 depth2.
     train_preprocess ds s img depth_gt do_flip do_augment ug ub uc =
       (s1, Inr (img1, depth1)) \<and>
     train_preprocess ds s1 img1 depth1 do_flip' do_augment' ug' ub' uc' =
       (s2, Inr (img2, depth2)) \<and>
     s1 ! img1 = hflip (s ! img) \<and> s1 ! depth1 = hflip (s ! depth_gt) \<and>
     s2 ! img2 = s ! img \<and> s2 ! depth2 = s ! depth_gt"
proof -
  let ?s1 = "s @ [hflip (s ! img), hflip (s ! depth_gt)]"
  let ?s2 = "?s1 @ [hflip (?s1 ! length s), hflip (?s1 ! (length s + 1))]"
  have first: "train_preprocess ds s img depth_gt do_flip do_augment ug ub uc =
      (?s1, Inr (length s, length s + 1))"
    using assms(2,3,4) by (intro train_preprocess_flip_only) auto
  have second: "train_preprocess ds ?s1 (length s) (length s + 1) do_flip' do_augment' ug' ub' uc' =
      (?s2, Inr (length ?s1, length ?s1 + 1))"
    using assms(5,6) by (intro train_preprocess_flip_only) auto
  have "?s1 ! length s = hflip (s ! img)" "?s1 ! (length s + 1) = hflip (s ! depth_gt)"
    by (simp_all add: nth_append)
  moreover have "?s2 ! length ?s1 = s ! img" "?s2 ! (length ?s1 + 1) = s ! depth_gt"
    by (simp_all add: nth_append hflip_hflip)
  ultimately show ?thesis
    using first second by blast
qed

text \<open>The theorem at a 1 by 2 image and depth array.\<close>

theorem train_preprocess_flip_twice_witness:
  "\<exists>s1 img1 depth1 s2 img2 depth2.
     train_preprocess ''kitti''
       [\<lparr>shape0 = 1, shape1 = 2, shape2 = 3, elems = [[[0, 1 / 2, 1], [1, 1, 0]]]\<rparr>,
        \<lparr>shape0 = 1, shape1 = 2, shape2 = 1, elems = [[[5], [7]]]\<rparr>]
       0 1 (7 / 10) (2 / 10) 0 0 (0, 0, 0) = (s1, Inr (img1, depth1)) \<and>
     train_preprocess ''kitti'' s1 img1 depth1 (9 / 10) (1 / 10) 0 0 (0, 0, 0) =
       (s2, Inr (img2, depth2)) \<and>
     s1 ! img1 = \<lparr>shape0 = 1, shape1 = 2, shape2 = 3, elems = [[[1, 1, 0], [0, 1 / 2, 1]]]\<rparr> \<and>
     s1 ! depth1 = \<lparr>shape0 = 1, shape1 = 2, shape2 = 1, elems = [[[7], [5]]]\<rparr> \<and>
     s2 ! img2 = \<lparr>shape0 = 1, shape1 = 2, shape2 = 3, elems = [[[0, 1 / 2, 1], [1, 1, 0]]]\<rparr> \<and>
     s2 ! depth2 = \<lparr>shape0 = 1, shape1 = 2, shape2 = 1, elems = [[[5], [7]]]\<rparr>"
  using train_preprocess_flip_twice [where img = 0 and depth_gt = 1 and ds = "''kitti''"
      and s = "[\<lparr>shape0 = 1, shape1 = 2, shape2 = 3, elems = [[[0, 1 / 2, 1], [1, 1, 0]]]\<rparr>,
        \<lparr>shape0 = 1, shape1 = 2, shape2 = 1, elems = [[[5], [7]]]\<rparr>]"
      and do_flip = "7 / 10" and do_augment = "2 / 10" and do_flip' = "9 / 10"
      and do_augment' = "1 / 10" and ug = 0 and ub = 0 and uc = "(0, 0, 0)"
      and ug' = 0 and ub' = 0 and uc' = "(0, 0, 0)"]
  by (simp add: hflip_def)

text \<open>
  Claim C7. Whatever the generator returns for the flip, the augmentation and its
  draws, the depth array train_preprocess returns is the input depth array when the flip
  is not drawn and its horizontal mirror when it is; the photometric augmentation
  changes no array that existed before it, so not the depth array; and the array at the
  address of the input depth is what it was, also when the call raises.
\<close>

theorem train_preprocess_depth:
  assumes "img < length s" and "depth_gt < length s"
  shows "\<exists>s' r. train_preprocess ds s img depth_gt do_flip do_augment ug ub uc = (s', r) \<and>
     s' ! depth_gt = s ! depth_gt \<and>
     (\<forall>img' depth'. r = Inr (img', depth') \<longrightarrow>
        depth' < length s' \<and>
        s' ! depth' = (if do_flip > 0.5 then hflip (s ! depth_gt) else s ! depth_gt) \<and>
        (s' ! depth' = s ! depth_gt \<or> s' ! depth' = hflip (s ! depth_gt)))"
proof -
  define s1 where "s1 = (if do_flip > 0.5 then s @ [hflip (s ! img), hflip (s ! depth_gt)] else s)"
  define img1 where "img1 = (if do_flip > 0.5 then length s else img)"
  define depth1 where "depth1 = (if do_flip > 0.5 then length s + 1 else depth_gt)"
  have valid: "img1 < length s1" "depth1 < length s1"
    using assms by (simp_all add: s1_def img1_def depth1_def)
  have old: "s1 ! depth_gt = s ! depth_gt"
    using assms by (simp add: s1_def nth_append)
  have new: "s1 ! depth1 = (if do_flip > 0.5 then hflip (s ! depth_gt) else s ! depth_gt)"
    by (simp add: s1_def depth1_def nth_append)
  have step: "train_preprocess ds s img depth_gt do_flip do_augment ug ub uc =
      (if do_augment > 0.5
       then (case augment_image ds s1 img1 ug ub uc of
               (s', Inl e) \<Rightarrow> (s', Inl e)
             | (s', Inr img') \<Rightarrow> (s', Inr (img', depth1)))
       else (s1, Inr (img1, depth1)))"
  proof (cases "do_flip > 0.5")
    case True
    then have eqs: "s1 = s @ [hflip (s ! img), hflip (s ! depth_gt)]" "img1 = length s"
        "depth1 = length s + 1"
      by (simp_all add: s1_def img1_def depth1_def)
    show ?thesis
      unfolding eqs using True assms(2)
      by (simp add: train_preprocess_def alloc_def Let_def nth_append
          split: prod.splits sum.splits)
  next
    case False
    then have eqs: "s1 = s" "img1 = img" "depth1 = depth_gt"
      by (simp_all add: s1_def img1_def depth1_def)
    show ?thesis
      unfolding eqs using False
      by (simp add: train_preprocess_def Let_def split: prod.splits sum.splits)
  qed
  show ?thesis
  proof (cases "do_augment > 0.5")
    case False
    then have "train_preprocess ds s img depth_gt do_flip do_augment ug ub uc =
        (s1, Inr (img1, depth1))"
      using step by simp
    then show ?thesis
      using old new valid by auto
  next
    case True
    obtain s' r where run: "augment_image ds s1 img1 ug ub uc = (s', r)"
        and frame: "take (length s1) s' = s1" and longer: "length s1 < length s'"
      using augment_image_frame [OF valid(1)] by blast
    have keep: "s' ! p = s1 ! p" if "p < length s1" for p
      using frame that by (rule nth_of_prefix) simp
    have "depth_gt < length s1"
      using assms by (simp add: s1_def)
    then have k1: "s' ! depth_gt = s ! depth_gt"
      using keep old by simp
    have k2: "s' ! depth1 = (if do_flip > 0.5 then hflip (s ! depth_gt) else s ! depth_gt)"
      using keep [OF valid(2)] new by simp
    have result: "train_preprocess ds s img depth_gt do_flip do_augment ug ub uc =
        (s', case r of Inl e \<Rightarrow> Inl e | Inr img' \<Rightarrow> Inr (img', depth1))"
      using step True run by (simp split: sum.splits)
    show ?thesis
      using result k1 k2 valid(2) longer by (cases r) auto
  qed
qed

text \<open>
  The theorem where both the flip and the augmentation are drawn: the call returns, the
  depth it returns is the mirror at address 3, and the input depth at address 1 is as it was.
\<close>

theorem train_preprocess_depth_witness:
  "\<exists>s' img'.
     train_preprocess ''nyu''
       [\<lparr>shape0 = 1, shape1 = 2, shape2 = 3, elems = [[[0, 1 / 2, 1], [1, 1, 0]]]\<rparr>,
        \<lparr>shape0 = 1, shape1 = 2, shape2 = 1, elems = [[[5], [7]]]\<rparr>]
       0 1 (7 / 10) (9 / 10) (1 / 2) (1 / 2) (0, 1 / 2, 1) = (s', Inr (img', 3)) \<and>
     s' ! 1 = \<lparr>shape0 = 1, shape1 = 2, shape2 = 1, elems = [[[5], [7]]]\<rparr> \<and>
     s' ! 3 = \<lparr>shape0 = 1, shape1 = 2, shape2 = 1, elems = [[[7], [5]]]\<rparr>"
proof -
  let ?i = "\<lparr>shape0 = 1, shape1 = 2, shape2 = 3, elems = [[[0, 1 / 2, 1], [1, 1, 0 :: real]]]\<rparr>"
  let ?d = "\<lparr>shape0 = 1, shape1 = 2, shape2 = 1, elems = [[[5], [7 :: real]]]\<rparr>"
  let ?run = "train_preprocess ''nyu'' [?i, ?d] 0 1 (7 / 10) (9 / 10) (1 / 2) (1 / 2) (0, 1 / 2, 1)"
  have "\<exists>s' r. ?run = (s', r) \<and> s' ! 1 = [?i, ?d] ! 1 \<and>
     (\<forall>img' depth'. r = Inr (img', depth') \<longrightarrow>
        depth' < length s' \<and>
        s' ! depth' = (if (7 / 10 :: real) > 0.5 then hflip ([?i, ?d] ! 1) else [?i, ?d] ! 1) \<and>
        (s' ! depth' = [?i, ?d] ! 1 \<or> s' ! depth' = hflip ([?i, ?d] ! 1)))"
    by (rule train_preprocess_depth) simp_all
  then obtain s' r where run: "?run = (s', r)" and old: "s' ! 1 = [?i, ?d] ! 1"
      and new: "\<And>img' depth'. r = Inr (img', depth') \<Longrightarrow>
        s' ! depth' = (if (7 / 10 :: real) > 0.5 then hflip ([?i, ?d] ! 1) else [?i, ?d] ! 1)"
    by (elim exE conjE) blast
  obtain s'' where "augment_image ''nyu'' ([?i, ?d] @ [hflip ?i, hflip ?d]) 2
      (1 / 2) (1 / 2) (0, 1 / 2, 1) = (s'', Inr 7)"
    using augment_image_result [of 2 "[?i, ?d] @ [hflip ?i, hflip ?d]" "''nyu''"
        "1 / 2" "1 / 2" "(0, 1 / 2, 1)"]
    by (auto simp: hflip_def)
  then have "snd ?run = Inr (7, 3)"
    by (simp add: train_preprocess_def alloc_def Let_def numeral_2_eq_2 numeral_3_eq_3)
  then have r: "r = Inr (7, 3)" using run by simp
  from new [OF r] have "s' ! 3 = hflip ?d" by simp
  then show ?thesis using run r old by (simp add: hflip_def)
qed

subsection \<open>ToTensor\<close>

lemma shape_transpose_201 [simp]:
  "shape0 (transpose_201 a) = shape2 a" "shape1 (transpose_201 a) = shape0 a"
  "shape2 (transpose_201 a) = shape1 a"
  by (simp_all add: transpose_201_def)

lemma well_shaped_transpose_201: "well_shaped (transpose_201 a)"
  by (simp add: transpose_201_def well_shaped_build3)

lemma at3_transpose_201:
  "c < shape2 a \<Longrightarrow> i < shape0 a \<Longrightarrow> j < shape1 a \<Longrightarrow>
     at3 (transpose_201 a) c i j = at3 a i j c"
  by (simp add: transpose_201_def at3_build3)

lemma torch_convertible_float32_array: "torch_convertible float32_array"
  by (simp add: torch_convertible_def float32_array_def)

lemma from_numpy_convertible:
  "torch_convertible m \<Longrightarrow> from_numpy m a = Inr (NumpyTensor (dtype m) a)"
  by (simp add: from_numpy_def torch_convertible_def)

lemma to_tensor_ndarray3:
  "torch_convertible m \<Longrightarrow>
     to_tensor (NdArray3 m a) = Inr (NumpyTensor (dtype m) (transpose_201 a))"
  by (simp add: to_tensor_def is_numpy_image_def from_numpy_convertible)

lemma mean_std_bounds:
  assumes "c < 3"
  shows "406 / 1000 \<le> mean ! c \<and> mean ! c \<le> 485 / 1000 \<and>
     224 / 1000 \<le> std ! c \<and> std ! c \<le> 229 / 1000"
proof -
  from assms have "c = 0 \<or> c = 1 \<or> c = 2" by arith
  then show ?thesis by (auto simp: mean_def std_def)
qed

text \<open>
  A rounding of a number of magnitude at most 4, with the error multiplied out: the
  underflow term, 16777216 / 2 ^ 150, is below a millionth.
\<close>

lemma roundingD:
  assumes "rounding fl" and "\<bar>y\<bar> \<le> 4"
  shows "16777216 * \<bar>fl y - y\<bar> \<le> \<bar>y\<bar> + 1 / 1000000"
proof -
  have "\<bar>y\<bar> \<le> 2 ^ 127"
    using assms(2) by simp
  then have "\<bar>fl y - y\<bar> \<le> \<bar>y\<bar> / 2 ^ 24 + 1 / 2 ^ 150"
    using assms(1) unfolding rounding_def by blast
  then have "16777216 * \<bar>fl y - y\<bar> \<le> 16777216 * (\<bar>y\<bar> / 2 ^ 24 + 1 / 2 ^ 150)"
    by (intro mult_left_mono) simp_all
  also have "\<dots> = \<bar>y\<bar> + 16777216 / 2 ^ 150"
    by (simp add: algebra_simps)
  also have "\<dots> \<le> \<bar>y\<bar> + 1 / 1000000"
    by simp
  finally show ?thesis .
qed

lemma rounded_quotient_times:
  assumes "rounding fl" and "0 < s" and "s \<le> 1" and "\<bar>r\<bar> \<le> 4 * s"
  shows "16777216 * \<bar>fl (r / s) * s - r\<bar> \<le> \<bar>r\<bar> + 1 / 1000000"
proof -
  have "\<bar>r / s\<bar> = \<bar>r\<bar> / s"
    using assms(2) by simp
  also have "\<dots> \<le> 4"
    using assms(2,4) by (simp add: field_simps)
  finally have "\<bar>r / s\<bar> \<le> 4" .
  with assms(1) have "16777216 * \<bar>fl (r / s) - r / s\<bar> \<le> \<bar>r / s\<bar> + 1 / 1000000"
    by (rule roundingD)
  then have "16777216 * \<bar>fl (r / s) - r / s\<bar> * s \<le> (\<bar>r / s\<bar> + 1 / 1000000) * s"
    using assms(2) by (intro mult_right_mono) auto
  moreover have "\<bar>fl (r / s) - r / s\<bar> * s = \<bar>fl (r / s) * s - r\<bar>"
  proof -
    have "fl (r / s) * s - r = (fl (r / s) - r / s) * s"
      using assms(2) by (simp add: algebra_simps)
    then show ?thesis
      using assms(2) by (simp add: abs_mult)
  qed
  moreover have "(\<bar>r / s\<bar> + 1 / 1000000) * s = \<bar>r\<bar> + s / 1000000"
    using assms(2) by (simp add: abs_mult algebra_simps)
  moreover have "s / 1000000 \<le> 1 / 1000000"
    using assms(3) by simp
  ultimately show ?thesis
    by (simp add: mult.assoc)
qed

lemma rounded_std_positive:
  assumes "rounding fl" and "c < 3"
  shows "22 / 100 \<le> fl (std ! c) \<and> fl (std ! c) \<le> 1"
proof -
  have bounds: "224 / 1000 \<le> std ! c" "std ! c \<le> 229 / 1000"
    using mean_std_bounds [OF assms(2)] by blast+
  then have "\<bar>std ! c\<bar> \<le> 4"
    by simp
  with assms(1) have "16777216 * \<bar>fl (std ! c) - std ! c\<bar> \<le> \<bar>std ! c\<bar> + 1 / 1000000"
    by (rule roundingD)
  then show ?thesis
    using bounds by argo
qed

lemma rounded_std_nonzero:
  assumes "rounding fl"
  shows "\<not> list_ex (\<lambda>s. fl s = 0) std"
proof -
  have "fl (std ! c) \<noteq> 0" if "c < 3" for c
    using rounded_std_positive [OF assms that] by simp
  from this [of 0] this [of 1] this [of 2] show ?thesis
    by (simp add: std_def)
qed

lemma standardize_round_trip_rounded:
  assumes "rounding fl" and "0 \<le> x" and "x \<le> 1" and "c < 3"
  shows "\<bar>fl (fl (fl (fl (x - fl (mean ! c)) / fl (std ! c)) * fl (std ! c)) + fl (mean ! c)) - x\<bar>
     \<le> 3 / 2 ^ 24"
proof -
  define m where "m = fl (mean ! c)"
  define s where "s = fl (std ! c)"
  define r1 where "r1 = fl (x - m)"
  define p where "p = fl (r1 / s) * s"
  define r3 where "r3 = fl p"
  define r4 where "r4 = fl (r3 + m)"
  note fl = roundingD [OF assms(1)]
  have bounds: "406 / 1000 \<le> mean ! c" "mean ! c \<le> 485 / 1000"
    using mean_std_bounds [OF assms(4)] by blast+
  have "\<bar>mean ! c\<bar> \<le> 4"
    using bounds by simp
  then have m: "16777216 * \<bar>m - mean ! c\<bar> \<le> \<bar>mean ! c\<bar> + 1 / 1000000"
    unfolding m_def by (rule fl)
  have s: "22 / 100 \<le> s" "s \<le> 1"
    unfolding s_def using rounded_std_positive [OF assms(1,4)] by blast+
  have a: "\<bar>x - m\<bar> \<le> 60 / 100"
    using m bounds assms(2,3) by argo
  then have "\<bar>x - m\<bar> \<le> 4"
    by simp
  then have e1: "16777216 * \<bar>r1 - (x - m)\<bar> \<le> \<bar>x - m\<bar> + 1 / 1000000"
    unfolding r1_def by (rule fl)
  have b1: "\<bar>r1\<bar> \<le> 61 / 100"
    using e1 a by argo
  have "\<bar>r1\<bar> \<le> 4 * s"
    using b1 s(1) by simp
  then have e2: "16777216 * \<bar>p - r1\<bar> \<le> \<bar>r1\<bar> + 1 / 1000000"
    unfolding p_def using assms(1) s by (intro rounded_quotient_times) simp_all
  have b2: "\<bar>p\<bar> \<le> 62 / 100"
    using e2 b1 by argo
  then have "\<bar>p\<bar> \<le> 4"
    by simp
  then have e3: "16777216 * \<bar>r3 - p\<bar> \<le> \<bar>p\<bar> + 1 / 1000000"
    unfolding r3_def by (rule fl)
  have d: "16777216 * \<bar>r3 - (x - m)\<bar> \<le> 184 / 100"
    using e1 e2 e3 a b1 b2 by argo
  have b4: "\<bar>r3 + m\<bar> \<le> 101 / 100"
    using d assms(2,3) by argo
  then have "\<bar>r3 + m\<bar> \<le> 4"
    by simp
  then have e4: "16777216 * \<bar>r4 - (r3 + m)\<bar> \<le> \<bar>r3 + m\<bar> + 1 / 1000000"
    unfolding r4_def by (rule fl)
  have "16777216 * \<bar>r4 - x\<bar> \<le> 3"
    using e4 b4 d by argo
  then have "\<bar>r4 - x\<bar> \<le> 3 / 2 ^ 24"
    by (simp add: field_simps)
  then show ?thesis
    by (simp add: r4_def r3_def p_def r1_def m_def s_def)
qed

lemma all3_at3:
  assumes "well_shaped a" "all3 P a" "i < shape0 a" "j < shape1 a" "k < shape2 a"
  shows "P (at3 a i j k)"
proof -
  have "all3 P (build3 (shape0 a) (shape1 a) (shape2 a) (at3 a))"
    using build3_at3 [OF assms(1)] assms(2) by simp
  then show ?thesis
    using assms(3-5) by (simp add: all3_build3)
qed

lemma rounding_exact: "rounding (\<lambda>x. x)"
  by (simp add: rounding_def)

text \<open>The rounding of \<^verbatim>\<open>float32\<close> is within the bound.\<close>

lemma round_half_even_near: "\<bar>of_int (round_half_even y) - y\<bar> \<le> 1 / 2"
proof -
  have "of_int \<lfloor>y\<rfloor> \<le> y" "y < of_int \<lfloor>y\<rfloor> + 1"
    by linarith+
  then show ?thesis
    by (auto simp: round_half_even_def Let_def)
qed

lemma round_float32_near:
  assumes "x \<noteq> 0"
  shows "\<bar>round_float32 x - x\<bar> \<le> 2 powr (of_int (max \<lfloor>log 2 \<bar>x\<bar>\<rfloor> (- 126)) - 24)"
proof -
  define ulp :: real where "ulp = 2 powr (of_int (max \<lfloor>log 2 \<bar>x\<bar>\<rfloor> (- 126)) - 23)"
  have pos: "0 < ulp"
    by (simp add: ulp_def)
  have fl: "round_float32 x = of_int (round_half_even (x / ulp)) * ulp"
    using assms by (simp add: round_float32_def Let_def ulp_def)
  have "round_float32 x - x = (of_int (round_half_even (x / ulp)) - x / ulp) * ulp"
    using pos by (simp add: fl algebra_simps)
  then have "\<bar>round_float32 x - x\<bar> = \<bar>of_int (round_half_even (x / ulp)) - x / ulp\<bar> * ulp"
    using pos by (simp add: abs_mult)
  also have "\<dots> \<le> 1 / 2 * ulp"
    using round_half_even_near [of "x / ulp"] pos by (intro mult_right_mono) simp_all
  also have "\<dots> = 2 powr (of_int (max \<lfloor>log 2 \<bar>x\<bar>\<rfloor> (- 126)) - 24)"
  proof -
    have "(2 :: real) powr (of_int (max \<lfloor>log 2 \<bar>x\<bar>\<rfloor> (- 126)) - 23) =
        2 powr (of_int (max \<lfloor>log 2 \<bar>x\<bar>\<rfloor> (- 126)) - 24 + 1)"
      by simp
    also have "\<dots> = 2 powr (of_int (max \<lfloor>log 2 \<bar>x\<bar>\<rfloor> (- 126)) - 24) * 2"
      by (simp only: powr_add) simp
    finally show ?thesis
      by (simp add: ulp_def)
  qed
  finally show ?thesis .
qed

lemma rounding_round_float32: "rounding round_float32"
  unfolding rounding_def
proof (intro allI impI)
  fix x :: real
  assume "\<bar>x\<bar> \<le> 2 ^ 127"
  show "\<bar>round_float32 x - x\<bar> \<le> \<bar>x\<bar> / 2 ^ 24 + 1 / 2 ^ 150"
  proof (cases "x = 0")
    case True
    then show ?thesis
      by (simp add: round_float32_def)
  next
    case False
    note near = round_float32_near [OF False]
    show ?thesis
    proof (cases "- 126 \<le> \<lfloor>log 2 \<bar>x\<bar>\<rfloor>")
      case True
      then have e: "max \<lfloor>log 2 \<bar>x\<bar>\<rfloor> (- 126) = \<lfloor>log 2 \<bar>x\<bar>\<rfloor>"
        by simp
      have "of_int \<lfloor>log 2 \<bar>x\<bar>\<rfloor> \<le> log 2 \<bar>x\<bar>"
        by simp
      then have "2 powr of_int \<lfloor>log 2 \<bar>x\<bar>\<rfloor> \<le> 2 powr log 2 \<bar>x\<bar>"
        by (simp only: powr_le_cancel_iff) 
      also have "\<dots> = \<bar>x\<bar>"
        using False by simp
      finally have le: "2 powr of_int \<lfloor>log 2 \<bar>x\<bar>\<rfloor> \<le> \<bar>x\<bar>" .
      have "(2 :: real) powr (of_int \<lfloor>log 2 \<bar>x\<bar>\<rfloor> - 24) = 2 powr of_int \<lfloor>log 2 \<bar>x\<bar>\<rfloor> / 2 powr 24"
        by (simp add: powr_diff)
      also have "\<dots> = 2 powr of_int \<lfloor>log 2 \<bar>x\<bar>\<rfloor> / 2 ^ 24"
        by (simp add: powr_numeral)
      also have "\<dots> \<le> \<bar>x\<bar> / 2 ^ 24"
        using le by (intro divide_right_mono) simp_all
      finally show ?thesis
        using near unfolding e by simp
    next
      case False
      then have e: "max \<lfloor>log 2 \<bar>x\<bar>\<rfloor> (- 126) = - 126"
        by simp
      have "(2 :: real) powr (of_int (- 126) - 24) = 2 powr (- 150)"
        by simp
      also have "\<dots> = 1 / 2 powr 150"
        by (simp add: powr_minus_divide)
      also have "\<dots> = 1 / 2 ^ 150"
        by (simp add: powr_numeral)
      finally have "(2 :: real) powr (of_int (- 126) - 24) = 1 / 2 ^ 150" .
      then show ?thesis
        using near unfolding e by simp
    qed
  qed
qed

text \<open>The image of a call: the standardized transposed array.\<close>

lemma normalize_numpy_tensor:
  assumes "rounding fl" and "is_floating_point d" and "shape2 img = 3"
  shows "normalize fl (NumpyTensor d (transpose_201 img)) =
     Inr (build3 3 (shape0 img) (shape1 img)
       (\<lambda>c i j. fl (fl (at3 (transpose_201 img) c i j - fl (mean ! c)) / fl (std ! c))))"
  using assms rounded_std_nonzero [OF assms(1)] by (simp add: normalize_array_def mean_def)

lemma ToTensor_call_test:
  assumes "rounding fl" and "raw_image sample = NdArray3 m img" and "torch_convertible m"
    and "is_floating_point (dtype m)" and "shape2 img = 3"
  shows "ToTensor_call fl True sample =
     Inr \<lparr>tensor_image = build3 3 (shape0 img) (shape1 img)
            (\<lambda>c i j. fl (fl (at3 (transpose_201 img) c i j - fl (mean ! c)) / fl (std ! c))),
          tensor_depth = None, tensor_focal = raw_focal sample\<rparr>"
  using normalize_numpy_tensor [OF assms(1,4,5)] assms(2,3)
  by (simp add: ToTensor_call_def to_tensor_ndarray3)

lemma ToTensor_call_train:
  assumes "rounding fl" and "raw_image sample = NdArray3 m img" and "torch_convertible m"
    and "is_floating_point (dtype m)" and "shape2 img = 3"
    and "raw_depth sample = Some (NdArray3 md depth)" and "torch_convertible md"
  shows "ToTensor_call fl False sample =
     Inr \<lparr>tensor_image = build3 3 (shape0 img) (shape1 img)
            (\<lambda>c i j. fl (fl (at3 (transpose_201 img) c i j - fl (mean ! c)) / fl (std ! c))),
          tensor_depth = Some (NumpyTensor (dtype md) (transpose_201 depth)),
          tensor_focal = raw_focal sample\<rparr>"
  using normalize_numpy_tensor [OF assms(1,4,5)] assms(2,3,6,7)
  by (simp add: ToTensor_call_def to_tensor_ndarray3)

text \<open>
  Claim C8. For a sample whose depth is an array of height by width by 1 that
  \<^verbatim>\<open>torch.from_numpy\<close> converts (and whose image is a float array with three
  channels that it converts, so that the steps before the depth's do not raise), the
  depth tensor that \<^verbatim>\<open>__call__\<close> returns has the array's dtype, the shape 1 by
  height by width and, at every index \<open>(0, i, j)\<close>, the input's element at
  \<open>(i, j, 0)\<close>: the input values, rearranged. The elements may be of any type: no
  arithmetic, and so no standardization, is applied to them.
\<close>

theorem ToTensor_depth_rearranged:
  fixes sample :: "'d raw_sample" and depth :: "'d ndarray3"
  assumes "rounding fl"
    and "raw_image sample = NdArray3 m img" and "torch_convertible m"
    and "is_floating_point (dtype m)" and "shape2 img = 3"
    and "raw_depth sample = Some (NdArray3 md depth)" and "torch_convertible md"
    and "shape2 depth = 1"
  shows "\<exists>t d. ToTensor_call fl False sample = Inr t \<and>
     tensor_depth t = Some (NumpyTensor (dtype md) d) \<and> well_shaped d \<and>
     shape0 d = 1 \<and> shape1 d = shape0 depth \<and> shape2 d = shape1 depth \<and>
     (\<forall>i<shape0 depth. \<forall>j<shape1 depth. at3 d 0 i j = at3 depth i j 0)"
proof -
  let ?t = "\<lparr>tensor_image = build3 3 (shape0 img) (shape1 img)
        (\<lambda>c i j. fl (fl (at3 (transpose_201 img) c i j - fl (mean ! c)) / fl (std ! c))),
      tensor_depth = Some (NumpyTensor (dtype md) (transpose_201 depth)),
      tensor_focal = raw_focal sample\<rparr>"
  have run: "ToTensor_call fl False sample = Inr ?t"
    using assms(1-7) by (rule ToTensor_call_train)
  have "\<forall>i<shape0 depth. \<forall>j<shape1 depth. at3 (transpose_201 depth) 0 i j = at3 depth i j 0"
    using assms(8) by (simp add: at3_transpose_201)
  then show ?thesis
    using run assms(8) by (simp add: well_shaped_transpose_201)
qed

text \<open>
  The theorem at a depth array of 64-bit integers, 1 by 2 by 1, in
  \<^verbatim>\<open>float32\<close> arithmetic.
\<close>

theorem ToTensor_depth_rearranged_witness:
  "rounding round_float32 \<and> torch_convertible float32_array \<and>
   torch_convertible \<lparr>dtype = Int64, strides_aligned = True, negative_stride = False,
     native_byteorder = True\<rparr> \<and>
   (\<exists>t d. ToTensor_call round_float32 False
        \<lparr>raw_image = NdArray3 float32_array
           \<lparr>shape0 = 1, shape1 = 1, shape2 = 3, elems = [[[0, 1 / 2, 1]]]\<rparr>,
         raw_depth = Some (NdArray3
           \<lparr>dtype = Int64, strides_aligned = True, negative_stride = False,
            native_byteorder = True\<rparr>
           \<lparr>shape0 = 1, shape1 = 2, shape2 = 1, elems = [[[5], [7 :: int]]]\<rparr>),
         raw_focal = 7\<rparr> = Inr t \<and>
      tensor_depth t = Some (NumpyTensor Int64 d) \<and> well_shaped d \<and>
      shape0 d = 1 \<and> shape1 d = 1 \<and> shape2 d = 2 \<and>
      at3 d 0 0 0 = 5 \<and> at3 d 0 0 1 = 7)"
proof -
  let ?m = "\<lparr>dtype = Int64, strides_aligned = True, negative_stride = False,
     native_byteorder = True\<rparr>"
  let ?d = "\<lparr>shape0 = 1, shape1 = 2, shape2 = 1, elems = [[[5], [7 :: int]]]\<rparr>"
  let ?i = "\<lparr>shape0 = 1, shape1 = 1, shape2 = 3, elems = [[[0, 1 / 2, 1 :: real]]]\<rparr>"
  let ?s = "\<lparr>raw_image = NdArray3 float32_array ?i, raw_depth = Some (NdArray3 ?m ?d),
     raw_focal = 7\<rparr>"
  have conv: "torch_convertible ?m"
    by (simp add: torch_convertible_def)
  have "\<exists>t d. ToTensor_call round_float32 False ?s = Inr t \<and>
     tensor_depth t = Some (NumpyTensor (dtype ?m) d) \<and> well_shaped d \<and>
     shape0 d = 1 \<and> shape1 d = shape0 ?d \<and> shape2 d = shape1 ?d \<and>
     (\<forall>i<shape0 ?d. \<forall>j<shape1 ?d. at3 d 0 i j = at3 ?d i j 0)"
    by (rule ToTensor_depth_rearranged [where m = float32_array and img = ?i])
      (simp_all add: rounding_round_float32 torch_convertible_def float32_array_def)
  then obtain t d where run: "ToTensor_call round_float32 False ?s = Inr t"
      "tensor_depth t = Some (NumpyTensor (dtype ?m) d)" "well_shaped d"
      "shape0 d = 1" "shape1 d = shape0 ?d" "shape2 d = shape1 ?d"
      and elts: "\<And>i j. i < shape0 ?d \<Longrightarrow> j < shape1 ?d \<Longrightarrow> at3 d 0 i j = at3 ?d i j 0"
    by (elim exE conjE) blast
  have "at3 d 0 0 0 = at3 ?d 0 0 0" "at3 d 0 0 1 = at3 ?d 0 1 0"
    by (rule elts; simp)+
  then have "at3 d 0 0 0 = 5" "at3 d 0 0 1 = 7"
    by (simp_all add: at3_def)
  then show ?thesis
    using conv run rounding_round_float32 torch_convertible_float32_array by auto
qed

text \<open>
  Without the hypothesis on the depth array the call raises: a TypeError for an array
  of strings, a ValueError for a mirrored view that was not copied.
\<close>

lemma to_tensor_unsupported_dtype:
  "to_tensor (NdArray3 \<lparr>dtype = Unicode, strides_aligned = True, negative_stride = False,
       native_byteorder = True\<rparr> a) = Inl TypeError"
  by (simp add: to_tensor_def is_numpy_image_def from_numpy_def)

lemma to_tensor_negative_stride:
  "negative_stride m \<Longrightarrow> to_tensor (NdArray3 m a) = Inl ValueError"
  by (simp add: to_tensor_def is_numpy_image_def from_numpy_def)

text \<open>
  Claim C4. For a height by width by 3 \<^verbatim>\<open>float32\<close> image with values in
  \<open>[0, 1]\<close> (an array that \<^verbatim>\<open>torch.from_numpy\<close> converts), in arithmetic that
  rounds as \<^verbatim>\<open>float32\<close> does, the Tensor Adapter returns the 3 by height by width
  tensor with the rounded \<open>(image - mean) / std\<close> per channel, and the inverse map
  \<open>image * std + mean\<close>, rounded in the same way, gives back every value of the
  original array within 3 / 2 ^ 24, at the transposed index.
\<close>

theorem ToTensor_standardize_inverse:
  assumes "rounding fl"
    and "raw_image sample = NdArray3 m img" and "torch_convertible m"
    and "dtype m = Float32" and "well_shaped img" and "shape2 img = 3"
    and "all3 (\<lambda>v. 0 \<le> v \<and> v \<le> 1) img"
    and "\<not> is_test \<longrightarrow>
       (\<exists>md depth. raw_depth sample = Some (NdArray3 md depth) \<and> torch_convertible md)"
  shows "\<exists>t. ToTensor_call fl is_test sample = Inr t \<and>
     shape0 (tensor_image t) = 3 \<and> shape1 (tensor_image t) = shape0 img \<and>
     shape2 (tensor_image t) = shape1 img \<and>
     (\<forall>c<3. \<forall>i<shape0 img. \<forall>j<shape1 img.
        at3 (tensor_image t) c i j = fl (fl (at3 img i j c - fl (mean ! c)) / fl (std ! c)) \<and>
        \<bar>at3 (denormalize fl (tensor_image t)) c i j - at3 img i j c\<bar> \<le> 3 / 2 ^ 24)"
proof -
  let ?img = "build3 3 (shape0 img) (shape1 img)
      (\<lambda>c i j. fl (fl (at3 (transpose_201 img) c i j - fl (mean ! c)) / fl (std ! c)))"
  have float: "is_floating_point (dtype m)"
    using assms(4) by simp
  have "\<exists>t. ToTensor_call fl is_test sample = Inr t \<and> tensor_image t = ?img"
  proof (cases is_test)
    case True
    then show ?thesis
      using ToTensor_call_test [OF assms(1-3) float assms(6)] by simp
  next
    case False
    then obtain md depth where "raw_depth sample = Some (NdArray3 md depth)"
        "torch_convertible md"
      using assms(8) by blast
    from ToTensor_call_train [OF assms(1-3) float assms(6) this] False show ?thesis
      by simp
  qed
  then obtain t where run: "ToTensor_call fl is_test sample = Inr t"
      and img: "tensor_image t = ?img"
    by blast
  have elts: "at3 ?img c i j = fl (fl (at3 img i j c - fl (mean ! c)) / fl (std ! c)) \<and>
      \<bar>at3 (denormalize fl ?img) c i j - at3 img i j c\<bar> \<le> 3 / 2 ^ 24"
    if "c < 3" "i < shape0 img" "j < shape1 img" for c i j
  proof -
    have unit: "0 \<le> at3 img i j c \<and> at3 img i j c \<le> 1"
      using all3_at3 [OF assms(5,7), of i j c] that assms(6) by simp
    have elt: "at3 ?img c i j = fl (fl (at3 img i j c - fl (mean ! c)) / fl (std ! c))"
      using that assms(6) by (simp add: at3_build3 at3_transpose_201)
    have "at3 (denormalize fl ?img) c i j =
        fl (fl (at3 ?img c i j * fl (std ! c)) + fl (mean ! c))"
      using that by (simp add: denormalize_def at3_build3)
    then have "at3 (denormalize fl ?img) c i j =
        fl (fl (fl (fl (at3 img i j c - fl (mean ! c)) / fl (std ! c)) * fl (std ! c)) +
          fl (mean ! c))"
      by (simp only: elt)
    then show ?thesis
      using standardize_round_trip_rounded [OF assms(1), of "at3 img i j c" c] unit that(1) elt
      by simp
  qed
  have shape: "shape0 ?img = 3" "shape1 ?img = shape0 img" "shape2 ?img = shape1 img"
    by simp_all
  show ?thesis
  proof (intro exI [of _ t] conjI)
    show "ToTensor_call fl is_test sample = Inr t" by (rule run)
    show "shape0 (tensor_image t) = 3" "shape1 (tensor_image t) = shape0 img"
        "shape2 (tensor_image t) = shape1 img"
      using shape by (simp_all only: img)
    show "\<forall>c<3. \<forall>i<shape0 img. \<forall>j<shape1 img.
        at3 (tensor_image t) c i j = fl (fl (at3 img i j c - fl (mean ! c)) / fl (std ! c)) \<and>
        \<bar>at3 (denormalize fl (tensor_image t)) c i j - at3 img i j c\<bar> \<le> 3 / 2 ^ 24"
      unfolding img using elts by blast
  qed
qed

text \<open>
  The theorem at a one-pixel image, in \<^verbatim>\<open>float32\<close> arithmetic.
\<close>

theorem ToTensor_standardize_inverse_witness:
  "rounding round_float32 \<and> torch_convertible float32_array \<and>
   dtype float32_array = Float32 \<and>
   well_shaped \<lparr>shape0 = 1, shape1 = 1, shape2 = 3, elems = [[[0, 1 / 2, 1 :: real]]]\<rparr> \<and>
   all3 (\<lambda>v. 0 \<le> v \<and> v \<le> 1)
     \<lparr>shape0 = 1, shape1 = 1, shape2 = 3, elems = [[[0, 1 / 2, 1 :: real]]]\<rparr> \<and>
   (\<exists>t. ToTensor_call round_float32 True
        \<lparr>raw_image = NdArray3 float32_array
           \<lparr>shape0 = 1, shape1 = 1, shape2 = 3, elems = [[[0, 1 / 2, 1]]]\<rparr>,
         raw_depth = (None :: real pic option), raw_focal = 7\<rparr> = Inr t \<and>
      shape0 (tensor_image t) = 3 \<and> shape1 (tensor_image t) = 1 \<and>
      shape2 (tensor_image t) = 1 \<and>
      \<bar>at3 (denormalize round_float32 (tensor_image t)) 1 0 0 - 1 / 2\<bar>
        \<le> 3 / 2 ^ 24)"
proof -
  let ?i = "\<lparr>shape0 = 1, shape1 = 1, shape2 = 3, elems = [[[0, 1 / 2, 1 :: real]]]\<rparr>"
  let ?s = "\<lparr>raw_image = NdArray3 float32_array ?i, raw_depth = (None :: real pic option),
     raw_focal = 7\<rparr>"
  let ?fl = "round_float32"
  have ws: "well_shaped ?i" by (simp add: well_shaped_def)
  have unit: "all3 (\<lambda>v. 0 \<le> v \<and> v \<le> 1) ?i" by (simp add: all3_def)
  have rnd: "rounding ?fl" by (rule rounding_round_float32)
  have f32: "dtype float32_array = Float32" by (simp add: float32_array_def)
  have "\<exists>t. ToTensor_call ?fl True ?s = Inr t \<and>
     shape0 (tensor_image t) = 3 \<and> shape1 (tensor_image t) = shape0 ?i \<and>
     shape2 (tensor_image t) = shape1 ?i \<and>
     (\<forall>c<3. \<forall>i<shape0 ?i. \<forall>j<shape1 ?i.
        at3 (tensor_image t) c i j = ?fl (?fl (at3 ?i i j c - ?fl (mean ! c)) / ?fl (std ! c)) \<and>
        \<bar>at3 (denormalize ?fl (tensor_image t)) c i j - at3 ?i i j c\<bar> \<le> 3 / 2 ^ 24)"
    using rnd _ torch_convertible_float32_array f32 ws _ unit
    by (rule ToTensor_standardize_inverse) simp_all
  then obtain t where t: "ToTensor_call ?fl True ?s = Inr t" "shape0 (tensor_image t) = 3"
      "shape1 (tensor_image t) = shape0 ?i" "shape2 (tensor_image t) = shape1 ?i"
    and near: "\<And>c i j. c < 3 \<Longrightarrow> i < shape0 ?i \<Longrightarrow> j < shape1 ?i \<Longrightarrow>
        \<bar>at3 (denormalize ?fl (tensor_image t)) c i j - at3 ?i i j c\<bar> \<le> 3 / 2 ^ 24"
    by (elim exE conjE) blast
  have "\<bar>at3 (denormalize ?fl (tensor_image t)) 1 0 0 - at3 ?i 0 0 1\<bar> \<le> 3 / 2 ^ 24"
    by (rule near) simp_all
  then have "\<bar>at3 (denormalize ?fl (tensor_image t)) 1 0 0 - 1 / 2\<bar> \<le> 3 / 2 ^ 24"
    by (simp add: at3_def)
  then show ?thesis
    using ws unit rnd f32 t torch_convertible_float32_array by simp
qed

text \<open>
  A call in exact arithmetic, computed: the pixel \<open>(0.485, 0.68, 0.631)\<close> is
  standardized to \<open>(0, 1, 1)\<close>.
\<close>

lemma ToTensor_call_example:
  "ToTensor_call (\<lambda>x. x) True
     \<lparr>raw_image = NdArray3 float32_array
        \<lparr>shape0 = 1, shape1 = 1, shape2 = 3, elems = [[[0.485, 0.68, 0.631]]]\<rparr>,
      raw_depth = (None :: real pic option), raw_focal = 7\<rparr> =
   Inr \<lparr>tensor_image = \<lparr>shape0 = 3, shape1 = 1, shape2 = 1, elems = [[[0]], [[1]], [[1]]]\<rparr>,
        tensor_depth = None, tensor_focal = 7\<rparr>"
  by (simp add: ToTensor_call_def to_tensor_def is_numpy_image_def from_numpy_def
      float32_array_def transpose_201_def normalize_array_def build3_def at3_def mean_def
      std_def upt_rec)

lemma view3_not_type_error:
  "(case view3 h w c xs of Inl e \<Rightarrow> Inl e | Inr img \<Rightarrow> Inr (f img)) \<noteq> Inl TypeError"
  by (simp add: view3_def)

lemma to_tensor_pil_image: "to_tensor (PilImage p) \<noteq> Inl TypeError"
  by (simp add: to_tensor_def Let_def view3_not_type_error)

text \<open>
  Claim C9, as stated, fails: to_tensor raises the TypeError also for numpy arrays,
  those whose number of dimensions is neither 2 nor 3, here one with one dimension.
\<close>

theorem to_tensor_type_error_counterexample:
  "\<not> (to_tensor (NdArray1 [0 :: real]) = Inl TypeError \<longleftrightarrow>
      \<not> (is_pil_image (NdArray1 [0 :: real]) \<or> is_ndarray (NdArray1 [0 :: real])))"
  by (simp add: to_tensor_def is_numpy_image_def)

text \<open>
  Claim C9, amended. to_tensor raises a TypeError if and only if its argument is
  neither a PIL image nor a numpy array with 2 or 3 dimensions, or is a numpy array
  with 3 dimensions that \<^verbatim>\<open>torch.from_numpy\<close> rejects for its dtype (its strides
  and byte order being accepted, and torch having no dtype for the array's). For every
  numpy array with 3 dimensions that \<^verbatim>\<open>torch.from_numpy\<close> converts it returns a
  tensor: of the array's dtype, with the channels first, and with the array's element
  \<open>(i, j, c)\<close> at \<open>(c, i, j)\<close>.
\<close>

theorem to_tensor_type_error_iff:
  "(to_tensor pic = Inl TypeError \<longleftrightarrow>
      \<not> (is_pil_image pic \<or> (is_ndarray pic \<and> ndim pic \<in> {2, 3})) \<or>
      (\<exists>m a. pic = NdArray3 m a \<and> strides_aligned m \<and> \<not> negative_stride m \<and>
         native_byteorder m \<and> \<not> torch_dtype (dtype m))) \<and>
   (torch_convertible m \<longrightarrow>
      (\<exists>t. to_tensor (NdArray3 m a) = Inr (NumpyTensor (dtype m) t) \<and>
         shape0 t = shape2 a \<and> shape1 t = shape0 a \<and> shape2 t = shape1 a \<and>
         (\<forall>c<shape2 a. \<forall>i<shape0 a. \<forall>j<shape1 a. at3 t c i j = at3 a i j c)))"
proof -
  have "to_tensor pic = Inl TypeError \<longleftrightarrow>
      \<not> (is_pil_image pic \<or> (is_ndarray pic \<and> ndim pic \<in> {2, 3})) \<or>
      (\<exists>m a. pic = NdArray3 m a \<and> strides_aligned m \<and> \<not> negative_stride m \<and>
         native_byteorder m \<and> \<not> torch_dtype (dtype m))"
  proof (cases pic)
    case (PilImage p)
    then show ?thesis
      by (simp add: to_tensor_pil_image)
  next
    case (NdArray3 m a)
    then show ?thesis
      by (simp add: to_tensor_def is_numpy_image_def from_numpy_def)
  qed (simp_all add: to_tensor_def is_numpy_image_def)
  moreover have "\<exists>t. to_tensor (NdArray3 m a) = Inr (NumpyTensor (dtype m) t) \<and>
      shape0 t = shape2 a \<and> shape1 t = shape0 a \<and> shape2 t = shape1 a \<and>
      (\<forall>c<shape2 a. \<forall>i<shape0 a. \<forall>j<shape1 a. at3 t c i j = at3 a i j c)"
    if "torch_convertible m"
    using that by (simp add: to_tensor_ndarray3 at3_transpose_201)
  ultimately show ?thesis
    by blast
qed

text \<open>
  The theorem at an array of strings, for which the TypeError is torch's, and at a
  \<^verbatim>\<open>float32\<close> array of 1 by 2 by 3, which is converted.
\<close>

theorem to_tensor_type_error_iff_witness:
  "to_tensor (NdArray3 \<lparr>dtype = Unicode, strides_aligned = True, negative_stride = False,
       native_byteorder = True\<rparr>
     \<lparr>shape0 = 1, shape1 = 2, shape2 = 3,
      elems = [[[1, 2, 3], [4, 5, 6 :: real]]]\<rparr>) = Inl TypeError \<and>
   torch_convertible float32_array \<and>
   (\<exists>t. to_tensor (NdArray3 float32_array
          \<lparr>shape0 = 1, shape1 = 2, shape2 = 3, elems = [[[1, 2, 3], [4, 5, 6 :: real]]]\<rparr>) =
        Inr (NumpyTensor Float32 t) \<and>
      shape0 t = 3 \<and> shape1 t = 1 \<and> shape2 t = 2 \<and> at3 t 2 0 1 = 6)"
proof -
  let ?u = "\<lparr>dtype = Unicode, strides_aligned = True, negative_stride = False,
       native_byteorder = True\<rparr>"
  let ?a = "\<lparr>shape0 = 1, shape1 = 2, shape2 = 3, elems = [[[1, 2, 3], [4, 5, 6 :: real]]]\<rparr>"
  note inst = to_tensor_type_error_iff [of "NdArray3 ?u ?a" float32_array ?a]
  have iff: "to_tensor (NdArray3 ?u ?a) = Inl TypeError \<longleftrightarrow>
      \<not> (is_pil_image (NdArray3 ?u ?a) \<or>
         (is_ndarray (NdArray3 ?u ?a) \<and> ndim (NdArray3 ?u ?a) \<in> {2, 3})) \<or>
      (\<exists>m a. NdArray3 ?u ?a = NdArray3 m a \<and> strides_aligned m \<and> \<not> negative_stride m \<and>
         native_byteorder m \<and> \<not> torch_dtype (dtype m))"
    using inst by (rule conjunct1)
  have err: "to_tensor (NdArray3 ?u ?a) = Inl TypeError"
    by (rule iffD2 [OF iff], rule disjI2, intro exI [of _ ?u] exI [of _ ?a]) simp
  have "torch_convertible float32_array \<longrightarrow>
      (\<exists>t. to_tensor (NdArray3 float32_array ?a) = Inr (NumpyTensor (dtype float32_array) t) \<and>
         shape0 t = shape2 ?a \<and> shape1 t = shape0 ?a \<and> shape2 t = shape1 ?a \<and>
         (\<forall>c<shape2 ?a. \<forall>i<shape0 ?a. \<forall>j<shape1 ?a. at3 t c i j = at3 ?a i j c))"
    using inst by (rule conjunct2)
  then have "\<exists>t. to_tensor (NdArray3 float32_array ?a) =
        Inr (NumpyTensor (dtype float32_array) t) \<and>
      shape0 t = shape2 ?a \<and> shape1 t = shape0 ?a \<and> shape2 t = shape1 ?a \<and>
      (\<forall>c<shape2 ?a. \<forall>i<shape0 ?a. \<forall>j<shape1 ?a. at3 t c i j = at3 ?a i j c)"
    using torch_convertible_float32_array by (rule mp)
  then obtain t where run: "to_tensor (NdArray3 float32_array ?a) =
        Inr (NumpyTensor (dtype float32_array) t)"
      and shape: "shape0 t = shape2 ?a" "shape1 t = shape0 ?a" "shape2 t = shape1 ?a"
      and elts: "\<And>c i j. c < shape2 ?a \<Longrightarrow> i < shape0 ?a \<Longrightarrow> j < shape1 ?a \<Longrightarrow>
        at3 t c i j = at3 ?a i j c"
    by (elim exE conjE) blast
  have "at3 t 2 0 1 = at3 ?a 0 1 2"
    by (rule elts) simp_all
  then have elt: "at3 t 2 0 1 = 6"
    by (simp add: at3_def)
  have f32: "dtype float32_array = Float32"
    by (simp add: float32_array_def)
  have "to_tensor (NdArray3 float32_array ?a) = Inr (NumpyTensor Float32 t) \<and>
      shape0 t = 3 \<and> shape1 t = 1 \<and> shape2 t = 2 \<and> at3 t 2 0 1 = 6"
    using run shape elt by (simp add: f32)
  then show ?thesis
    using err torch_convertible_float32_array by blast
qed

text \<open>
  The amended claim says nothing of the other arguments that pass the type check. A
  numpy array with 2 dimensions fails in \<^verbatim>\<open>pic.transpose((2, 0, 1))\<close> with a
  ValueError, and a PIL image whose data does not have the size of its mode and
  dimensions fails in \<^verbatim>\<open>view\<close> with a RuntimeError.
\<close>

lemma to_tensor_two_dimensional:
  "is_numpy_image (NdArray2 a) \<and> to_tensor (NdArray2 a) = Inl ValueError"
  by (simp add: to_tensor_def is_numpy_image_def)

text \<open>
  A PIL image of mode I;16, computed: the pixel value 40000 is read as a 16-bit
  two's complement number.
\<close>

lemma to_tensor_int16_example:
  "to_tensor (PilImage \<lparr>pil_mode = ''I;16'', pil_size = (2, 1), pil_ints = [7, 40000],
       pil_bytes = []\<rparr>) =
   Inr (IntTensor \<lparr>shape0 = 1, shape1 = 1, shape2 = 2, elems = [[[7, - 25536]]]\<rparr> :: real tensor)"
  by (simp add: to_tensor_def is_numpy_image_def view3_def transpose_01_def transpose_02_def
      build3_def at3_def as_int16_def upt_rec)

subsection \<open>__getitem__ in test mode\<close>

lemma int_of_half_nat:
  assumes "n \<le> w"
  shows "int_of_half (int w - int n) = int ((w - n) div 2)"
  using assms by (simp add: int_of_half_def zdiv_int of_nat_diff)

lemma kb_crop_window:
  assumes "well_shaped img" "352 \<le> shape0 img" "1216 \<le> shape1 img"
  shows "slice_hw (int (shape0 img) - 352) (int (shape0 img) - 352 + 352)
       (int_of_half (int (shape1 img) - 1216)) (int_of_half (int (shape1 img) - 1216) + 1216) img =
     \<lparr>shape0 = 352, shape1 = 1216, shape2 = shape2 img,
      elems = window (shape0 img - 352) ((shape1 img - 1216) div 2) 352 1216 (elems img)\<rparr>"
proof -
  let ?top = "int (shape0 img) - 352"
  let ?left = "int_of_half (int (shape1 img) - 1216)"
  have left: "?left = int ((shape1 img - 1216) div 2)"
    using int_of_half_nat [OF assms(3)] by simp
  have "(shape1 img - 1216) div 2 \<le> shape1 img - 1216"
    by simp
  then have fits: "?left + 1216 \<le> int (shape1 img)"
    using assms(3) left by linarith
  have "slice_hw ?top (?top + 352) ?left (?left + 1216) img =
      \<lparr>shape0 = nat 352, shape1 = nat 1216, shape2 = shape2 img,
       elems = window (nat ?top) (nat ?left) (nat 352) (nat 1216) (elems img)\<rparr>"
    using assms(1,2) fits left by (intro slice_hw_window) auto
  moreover have "nat ?top = shape0 img - 352"
    by simp
  moreover have "nat ?left = (shape1 img - 1216) div 2"
    using left by simp
  ultimately show ?thesis
    by simp
qed

text \<open>
  Claim C3, as stated, fails: the sample's image has the channels of the decoded file,
  which are not always 3. Here the source is an image of 1 by 2 pixels with four bands
  (RGBA), and the sample's image has 4 channels.
\<close>

theorem getitem_test_channels_counterexample:
  "getitem_test (\<lambda>x. x)
     \<lparr>dataset = ''kitti'', do_kb_crop = False, input_height = 352, input_width = 704\<rparr> None
     (Decoded3 \<lparr>shape0 = 1, shape1 = 2, shape2 = 4,
        elems = [[[255, 0, 51, 255], [0, 102, 255, 255]]]\<rparr>) 721 =
   Inr (RawSample
     \<lparr>raw_image = NdArray3 float32_array
        \<lparr>shape0 = 1, shape1 = 2, shape2 = 4, elems = [[[1, 0, 1 / 5, 1], [0, 2 / 5, 1, 1]]]\<rparr>,
      raw_depth = None, raw_focal = 721\<rparr> :: real sample) \<and>
   shape2 \<lparr>shape0 = 1, shape1 = 2, shape2 = 4,
     elems = [[[1, 0, 1 / 5, 1], [0, 2 / 5, 1, 1 :: real]]]\<rparr> \<noteq> 3"
  by (simp add: getitem_test_def apply_transform_def map3_def)

text \<open>
  Claim C3, amended. In test mode, for a source image decoded to height by width by
  channels (at least 352 by 1216 when do_kb_crop is set), the sample's image has exactly
  the channels of the decoded source, 3 for an RGB one; with do_kb_crop its height and
  width are 352 and 1216 and it is the window of the source that starts at row
  (height - 352) and column (width - 1216) div 2, so anchored to the bottom and centred;
  without do_kb_crop it has the source's height and width. This holds for the array
  sample (no transform) and, when the channels are 3, with the channels first, for the
  tensor sample that ToTensor(is_test = True) makes of it.
\<close>

theorem getitem_test_image_shape:
  assumes "well_shaped colour"
    and "do_kb_crop a \<longrightarrow> 352 \<le> shape0 colour \<and> 1216 \<le> shape1 colour"
  shows "\<exists>img.
     getitem_test fl a None (Decoded3 colour) focal =
       Inr (RawSample \<lparr>raw_image = NdArray3 float32_array img, raw_depth = None,
              raw_focal = focal\<rparr> :: 'd sample) \<and>
     shape2 img = shape2 colour \<and>
     shape0 img = (if do_kb_crop a then 352 else shape0 colour) \<and>
     shape1 img = (if do_kb_crop a then 1216 else shape1 colour) \<and>
     elems img =
       (if do_kb_crop a
        then window (shape0 colour - 352) ((shape1 colour - 1216) div 2) 352 1216
               (elems (map3 (\<lambda>v. v / 255) colour))
        else elems (map3 (\<lambda>v. v / 255) colour)) \<and>
     (rounding fl \<and> shape2 colour = 3 \<longrightarrow>
        (\<exists>t. getitem_test fl a (Some True) (Decoded3 colour) focal =
             Inr (TensorSample t :: 'd sample) \<and>
           shape0 (tensor_image t) = 3 \<and>
           shape1 (tensor_image t) = (if do_kb_crop a then 352 else shape0 colour) \<and>
           shape2 (tensor_image t) = (if do_kb_crop a then 1216 else shape1 colour)))"
proof -
  let ?img = "map3 (\<lambda>v. v / 255) colour"
  define crop where "crop =
     (if do_kb_crop a
      then \<lparr>shape0 = 352, shape1 = 1216, shape2 = shape2 ?img,
             elems = window (shape0 ?img - 352) ((shape1 ?img - 1216) div 2) 352 1216
               (elems ?img)\<rparr>
      else ?img)"
  let ?r = "\<lparr>raw_image = NdArray3 float32_array crop, raw_depth = (None :: 'd pic option),
      raw_focal = focal\<rparr>"
  have ws: "well_shaped ?img"
    using assms(1) by (rule well_shaped_map3)
  have sample: "getitem_test fl a transform (Decoded3 colour) focal =
      (apply_transform fl transform ?r :: py_error + 'd sample)"
    for transform :: "bool option"
  proof (cases "do_kb_crop a")
    case True
    then have "352 \<le> shape0 ?img" "1216 \<le> shape1 ?img"
      using assms(2) by simp_all
    from kb_crop_window [OF ws this] True show ?thesis
      by (simp add: getitem_test_def Let_def crop_def)
  next
    case False
    then show ?thesis
      by (simp add: getitem_test_def Let_def crop_def)
  qed
  have raw: "getitem_test fl a None (Decoded3 colour) focal = Inr (RawSample ?r)"
    by (simp add: sample apply_transform_def)
  have shape: "shape2 crop = shape2 colour"
    "shape0 crop = (if do_kb_crop a then 352 else shape0 colour)"
    "shape1 crop = (if do_kb_crop a then 1216 else shape1 colour)"
    "elems crop =
       (if do_kb_crop a
        then window (shape0 colour - 352) ((shape1 colour - 1216) div 2) 352 1216 (elems ?img)
        else elems ?img)"
    by (simp_all add: crop_def)
  have tensor: "\<exists>t. getitem_test fl a (Some True) (Decoded3 colour) focal =
        Inr (TensorSample t :: 'd sample) \<and>
      shape0 (tensor_image t) = 3 \<and>
      shape1 (tensor_image t) = (if do_kb_crop a then 352 else shape0 colour) \<and>
      shape2 (tensor_image t) = (if do_kb_crop a then 1216 else shape1 colour)"
    if "rounding fl" "shape2 colour = 3"
  proof -
    have "raw_image ?r = NdArray3 float32_array crop" "is_floating_point (dtype float32_array)"
      "shape2 crop = 3"
      using that(2) shape(1) by (simp_all add: float32_array_def)
    from ToTensor_call_test [OF that(1) this(1) torch_convertible_float32_array this(2,3)]
    have "getitem_test fl a (Some True) (Decoded3 colour) focal =
        Inr (TensorSample \<lparr>tensor_image = build3 3 (shape0 crop) (shape1 crop)
            (\<lambda>c i j. fl (fl (at3 (transpose_201 crop) c i j - fl (mean ! c)) / fl (std ! c))),
          tensor_depth = (None :: 'd tensor option), tensor_focal = focal\<rparr>)"
      by (simp add: sample apply_transform_def)
    then show ?thesis
      using shape(2,3) by simp
  qed
  show ?thesis
    using raw shape tensor by (intro exI [of _ crop]) simp
qed

text \<open>
  The theorem at an RGB source of 375 by 1242 with do_kb_crop set, in \<^verbatim>\<open>float32\<close>
  arithmetic:
  the window starts at row 23 and column 13.
\<close>

theorem getitem_test_image_shape_witness:
  "well_shaped (build3 375 1242 3 (\<lambda>i j k. 255 :: real)) \<and> rounding round_float32 \<and>
   (\<exists>img t.
     getitem_test round_float32
       \<lparr>dataset = ''kitti'', do_kb_crop = True, input_height = 352, input_width = 704\<rparr>
       None (Decoded3 (build3 375 1242 3 (\<lambda>i j k. 255))) 721 =
       Inr (RawSample \<lparr>raw_image = NdArray3 float32_array img, raw_depth = None,
              raw_focal = 721\<rparr> :: real sample) \<and>
     shape2 img = 3 \<and> shape0 img = 352 \<and> shape1 img = 1216 \<and>
     elems img =
       window 23 13 352 1216 (elems (map3 (\<lambda>v. v / 255) (build3 375 1242 3 (\<lambda>i j k. 255)))) \<and>
     getitem_test round_float32
       \<lparr>dataset = ''kitti'', do_kb_crop = True, input_height = 352, input_width = 704\<rparr>
       (Some True) (Decoded3 (build3 375 1242 3 (\<lambda>i j k. 255))) 721 =
       Inr (TensorSample t :: real sample) \<and>
     shape0 (tensor_image t) = 3 \<and> shape1 (tensor_image t) = 352 \<and>
     shape2 (tensor_image t) = 1216)"
proof -
  let ?a = "\<lparr>dataset = ''kitti'', do_kb_crop = True, input_height = 352, input_width = 704\<rparr>"
  let ?d = "build3 375 1242 3 (\<lambda>i j k. 255 :: real)"
  have ws: "well_shaped ?d" by (rule well_shaped_build3)
  from getitem_test_image_shape [of ?d ?a round_float32 721, where ?'d = real]
  show ?thesis using ws rounding_round_float32 by simp
qed

text \<open>A call without do_kb_crop, computed.\<close>

lemma getitem_test_example:
  "getitem_test (\<lambda>x. x)
     \<lparr>dataset = ''nyu'', do_kb_crop = False, input_height = 1, input_width = 1\<rparr>
     None (Decoded3 \<lparr>shape0 = 1, shape1 = 2, shape2 = 3,
       elems = [[[0, 255, 51], [102, 0, 255]]]\<rparr>) 7 =
   Inr (RawSample
     \<lparr>raw_image = NdArray3 float32_array
        \<lparr>shape0 = 1, shape1 = 2, shape2 = 3, elems = [[[0, 1, 1 / 5], [2 / 5, 0, 1]]]\<rparr>,
      raw_depth = None, raw_focal = 7\<rparr> :: real sample)"
  by (simp add: getitem_test_def apply_transform_def map3_def)

text \<open>
  The amended claim says nothing of a source with one band, which is decoded without a
  channel axis: with do_kb_crop the slice raises IndexError; without it the sample's
  image has two dimensions, and ToTensor raises ValueError for it.
\<close>

lemma getitem_test_greyscale:
  "(do_kb_crop a \<longrightarrow>
      getitem_test fl a transform (Decoded2 grey) focal = (Inl IndexError :: py_error + 'd sample)) \<and>
   (\<not> do_kb_crop a \<longrightarrow>
      getitem_test fl a None (Decoded2 grey) focal =
        Inr (RawSample \<lparr>raw_image = NdArray2 (map2d (\<lambda>v. v / 255) grey), raw_depth = None,
               raw_focal = focal\<rparr> :: 'd sample) \<and>
      getitem_test fl a (Some is_test) (Decoded2 grey) focal =
        (Inl ValueError :: py_error + 'd sample))"
  by (simp add: getitem_test_def apply_transform_def ToTensor_call_def to_tensor_def
      is_numpy_image_def)

subsection \<open>__getitem__ in train mode\<close>

lemma well_shaped_hflip: "well_shaped a \<Longrightarrow> well_shaped (hflip a)"
  by (auto simp: well_shaped_def hflip_def list_all_iff)

lemma well_shaped_expand_dims_2: "well_shaped2 a \<Longrightarrow> well_shaped (expand_dims_2 a)"
  by (auto simp: well_shaped_def well_shaped2_def expand_dims_2_def list_all_iff)

lemma window_nth:
  assumes "i < h" and "j < w" and "y + h \<le> length rows" and "x + w \<le> length (rows ! (y + i))"
  shows "window y x h w rows ! i ! j = rows ! (y + i) ! (x + j)"
  using assms by (simp add: window_def)

lemma hflip_nth:
  assumes "i < length (elems a)" and "j < length (elems a ! i)"
  shows "elems (hflip a) ! i ! j = elems a ! i ! (length (elems a ! i) - 1 - j)"
  using assms by (simp add: hflip_def rev_nth)

lemma scaled_depth_nth:
  assumes "well_shaped2 d" and "r < rows2 d" and "c < cols2 d"
  shows "elems (map3 f (expand_dims_2 d)) ! r ! c = [f (elems2 d ! r ! c)]"
proof -
  have "elems2 d ! r \<in> set (elems2 d)"
    using assms(1,2) by (simp add: well_shaped2_def)
  then have "length (elems2 d ! r) = cols2 d"
    using assms(1) by (auto simp: well_shaped2_def list_all_iff)
  then show ?thesis
    using assms by (simp add: map3_def expand_dims_2_def well_shaped2_def)
qed

text \<open>
  The depth after scaling, cropping at the offset \<open>(x, y)\<close> and mirroring or not: its
  shape, and its element at every position as an element of the decoded depth map.
\<close>

lemma cropped_depth_at:
  fixes d :: "'a ndarray2" and f :: "'a \<Rightarrow> 'b" and y h x w :: int and flip :: bool
  assumes "well_shaped2 d"
    and "0 \<le> y" "0 \<le> h" "y + h \<le> int (rows2 d)"
    and "0 \<le> x" "0 \<le> w" "x + w \<le> int (cols2 d)"
  defines "depth1 \<equiv> slice_hw y (y + h) x (x + w) (map3 f (expand_dims_2 d))"
  defines "depth2 \<equiv> if flip then hflip depth1 else depth1"
  shows "shape0 depth2 = nat h \<and> shape1 depth2 = nat w \<and> shape2 depth2 = 1 \<and>
     (\<forall>i<nat h. \<forall>j<nat w.
        at3 depth2 i j 0 =
          f (elems2 d ! (nat y + i) ! (nat x + (if flip then nat w - 1 - j else j))))"
proof -
  let ?depth0 = "map3 f (expand_dims_2 d)"
  have ws0: "well_shaped ?depth0"
    using assms(1) by (intro well_shaped_map3 well_shaped_expand_dims_2)
  have shape0: "shape0 ?depth0 = rows2 d" "shape1 ?depth0 = cols2 d" "shape2 ?depth0 = 1"
    by (simp_all add: expand_dims_2_def)
  have len0: "length (elems ?depth0) = rows2 d"
    using ws0 shape0 by (simp add: well_shaped_def)
  have crop: "depth1 =
      \<lparr>shape0 = nat h, shape1 = nat w, shape2 = 1,
       elems = window (nat y) (nat x) (nat h) (nat w) (elems ?depth0)\<rparr>"
    unfolding depth1_def using slice_hw_window [OF ws0, of y h x w] assms(2-7) shape0 by simp
  have ws1: "well_shaped depth1"
    unfolding depth1_def using ws0 by (rule well_shaped_slice_hw)
  have len1: "length (elems depth1) = nat h"
    using ws1 crop by (simp add: well_shaped_def)
  have row1: "length (elems depth1 ! i) = nat w" if "i < nat h" for i
    using well_shaped_rowD [OF ws1, of i] that crop by simp
  have elt1: "elems depth1 ! i ! j = [f (elems2 d ! (nat y + i) ! (nat x + j))]"
    if "i < nat h" "j < nat w" for i j
  proof -
    have r: "nat y + i < rows2 d" and c: "nat x + j < cols2 d"
      using that assms(2-7) by linarith+
    have "length (elems ?depth0 ! (nat y + i)) = cols2 d"
      using well_shaped_rowD [OF ws0, of "nat y + i"] r shape0 by simp
    then have "window (nat y) (nat x) (nat h) (nat w) (elems ?depth0) ! i ! j =
        elems ?depth0 ! (nat y + i) ! (nat x + j)"
      using that assms(2-7) len0 by (intro window_nth) linarith+
    then show ?thesis
      using scaled_depth_nth [OF assms(1) r c, of f] crop by simp
  qed
  have "at3 depth2 i j 0 =
      f (elems2 d ! (nat y + i) ! (nat x + (if flip then nat w - 1 - j else j)))"
    if "i < nat h" "j < nat w" for i j
  proof (cases flip)
    case True
    have "elems (hflip depth1) ! i ! j = elems depth1 ! i ! (length (elems depth1 ! i) - 1 - j)"
      using that len1 row1 by (intro hflip_nth) simp_all
    also have "\<dots> = elems depth1 ! i ! (nat w - 1 - j)"
      using that row1 by simp
    also have "\<dots> = [f (elems2 d ! (nat y + i) ! (nat x + (nat w - 1 - j)))]"
      using that by (intro elt1) simp_all
    finally show ?thesis
      using True by (simp add: depth2_def at3_def)
  next
    case False
    then show ?thesis
      using elt1 [OF that] by (simp add: depth2_def at3_def)
  qed
  moreover have "shape0 depth2 = nat h" "shape1 depth2 = nat w" "shape2 depth2 = 1"
    using crop by (simp_all add: depth2_def)
  ultimately show ?thesis
    by blast
qed

lemma random_crop_slices:
  assumes "shape0 depth = shape0 img" and "shape1 depth = shape1 img"
    and "height \<le> int (shape0 img)" and "width \<le> int (shape1 img)"
  shows "\<exists>x y. 0 \<le> x \<and> x \<le> int (shape1 img) - width \<and>
     0 \<le> y \<and> y \<le> int (shape0 img) - height \<and>
     random_crop img depth height width rx ry =
       Inr (slice_hw y (y + height) x (x + width) img,
            slice_hw y (y + height) x (x + width) depth)"
proof -
  obtain x where x: "randint 0 (int (shape1 img) - width) rx = Inr x"
      "0 \<le> x" "x \<le> int (shape1 img) - width"
    using randint_range [of 0 "int (shape1 img) - width" rx] assms(4) by auto
  obtain y where y: "randint 0 (int (shape0 img) - height) ry = Inr y"
      "0 \<le> y" "y \<le> int (shape0 img) - height"
    using randint_range [of 0 "int (shape0 img) - height" ry] assms(3) by auto
  have "random_crop img depth height width rx ry =
      Inr (slice_hw y (y + height) x (x + width) img,
           slice_hw y (y + height) x (x + width) depth)"
    using assms x(1) y(1) by (simp add: random_crop_def)
  then show ?thesis
    using x(2,3) y(2,3) by blast
qed

lemma train_preprocess_step:
  assumes "depth_gt < length s"
  shows "train_preprocess ds s img depth_gt do_flip do_augment ug ub uc =
     (if do_flip > 0.5
      then (if do_augment > 0.5
            then (case augment_image ds (s @ [hflip (s ! img), hflip (s ! depth_gt)])
                         (length s) ug ub uc of
                    (s', Inl e) \<Rightarrow> (s', Inl e)
                  | (s', Inr img') \<Rightarrow> (s', Inr (img', length s + 1)))
            else (s @ [hflip (s ! img), hflip (s ! depth_gt)], Inr (length s, length s + 1)))
      else (if do_augment > 0.5
            then (case augment_image ds s img ug ub uc of
                    (s', Inl e) \<Rightarrow> (s', Inl e)
                  | (s', Inr img') \<Rightarrow> (s', Inr (img', depth_gt)))
            else (s, Inr (img, depth_gt))))"
  using assms
  by (simp add: train_preprocess_def alloc_def Let_def nth_append split: prod.splits sum.splits)

lemma train_preprocess_arrays_depth:
  assumes "shape2 img = 3"
  shows "\<exists>img'. train_preprocess_arrays ds img depth_gt do_flip do_augment ug ub uc =
       Inr (img', if do_flip > 0.5 then hflip depth_gt else depth_gt) \<and>
     shape0 img' = shape0 img \<and> shape1 img' = shape1 img \<and> shape2 img' = 3"
proof -
  let ?s = "[img, depth_gt]"
  let ?s1 = "?s @ [hflip (?s ! 0), hflip (?s ! 1)]"
  have step: "train_preprocess ds ?s 0 1 do_flip do_augment ug ub uc =
     (if do_flip > 0.5
      then (if do_augment > 0.5
            then (case augment_image ds ?s1 (length ?s) ug ub uc of
                    (s', Inl e) \<Rightarrow> (s', Inl e)
                  | (s', Inr img') \<Rightarrow> (s', Inr (img', length ?s + 1)))
            else (?s1, Inr (length ?s, length ?s + 1)))
      else (if do_augment > 0.5
            then (case augment_image ds ?s 0 ug ub uc of
                    (s', Inl e) \<Rightarrow> (s', Inl e)
                  | (s', Inr img') \<Rightarrow> (s', Inr (img', 1)))
            else (?s, Inr (0, 1))))"
    by (rule train_preprocess_step) simp
  show ?thesis
  proof (cases "do_flip > 0.5")
    case flip: True
    show ?thesis
    proof (cases "do_augment > 0.5")
      case True
      have "length ?s < length ?s1" "shape2 (?s1 ! length ?s) = 3"
        using assms by simp_all
      from augment_image_result [OF this]
      obtain s' where run: "augment_image ds ?s1 (length ?s) ug ub uc = (s', Inr (length ?s1 + 3))"
          and frame: "take (length ?s1) s' = ?s1"
          and shape: "shape0 (s' ! (length ?s1 + 3)) = shape0 (?s1 ! length ?s)"
            "shape1 (s' ! (length ?s1 + 3)) = shape1 (?s1 ! length ?s)"
            "shape2 (s' ! (length ?s1 + 3)) = 3"
        by blast
      have "s' ! (length ?s + 1) = ?s1 ! (length ?s + 1)"
        using frame by (rule nth_of_prefix) simp_all
      then have depth: "s' ! (length ?s + 1) = hflip depth_gt"
        by simp
      have "train_preprocess ds ?s 0 1 do_flip do_augment ug ub uc =
          (s', Inr (length ?s1 + 3, length ?s + 1))"
        unfolding step using flip True run by simp
      then have "train_preprocess_arrays ds img depth_gt do_flip do_augment ug ub uc =
          Inr (s' ! (length ?s1 + 3), s' ! (length ?s + 1))"
        by (simp add: train_preprocess_arrays_def)
      then show ?thesis
        using flip depth shape by simp
    next
      case False
      then have "train_preprocess ds ?s 0 1 do_flip do_augment ug ub uc =
          (?s1, Inr (length ?s, length ?s + 1))"
        unfolding step using flip by simp
      then have "train_preprocess_arrays ds img depth_gt do_flip do_augment ug ub uc =
          Inr (hflip img, hflip depth_gt)"
        by (simp add: train_preprocess_arrays_def)
      then show ?thesis
        using flip assms by simp
    qed
  next
    case noflip: False
    show ?thesis
    proof (cases "do_augment > 0.5")
      case True
      have "0 < length ?s" "shape2 (?s ! 0) = 3"
        using assms by simp_all
      from augment_image_result [OF this]
      obtain s' where run: "augment_image ds ?s 0 ug ub uc = (s', Inr (length ?s + 3))"
          and frame: "take (length ?s) s' = ?s"
          and shape: "shape0 (s' ! (length ?s + 3)) = shape0 (?s ! 0)"
            "shape1 (s' ! (length ?s + 3)) = shape1 (?s ! 0)"
            "shape2 (s' ! (length ?s + 3)) = 3"
        by blast
      have "s' ! 1 = ?s ! 1"
        using frame by (rule nth_of_prefix) simp_all
      then have depth: "s' ! 1 = depth_gt"
        by simp
      have "train_preprocess ds ?s 0 1 do_flip do_augment ug ub uc =
          (s', Inr (length ?s + 3, 1))"
        unfolding step using noflip True run by simp
      then have "train_preprocess_arrays ds img depth_gt do_flip do_augment ug ub uc =
          Inr (s' ! (length ?s + 3), s' ! 1)"
        by (simp add: train_preprocess_arrays_def)
      then show ?thesis
        using noflip depth shape by simp
    next
      case False
      then have "train_preprocess ds ?s 0 1 do_flip do_augment ug ub uc = (?s, Inr (0, 1))"
        unfolding step using noflip by simp
      then have "train_preprocess_arrays ds img depth_gt do_flip do_augment ug ub uc =
          Inr (img, depth_gt)"
        by (simp add: train_preprocess_arrays_def)
      then show ?thesis
        using noflip assms by simp
    qed
  qed
qed

text \<open>
  Claim C2. In train mode (the image with 3 channels, the depth map of the image's
  height and width, the crop size within them), with no transform or with
  ToTensor(is_test = False), which is the transform of the train-mode loader, the
  sample holds a depth of the crop's height and width, and there is an offset
  \<open>(x, y)\<close> at which the crop fits such that the depth at every row \<open>i\<close> and column
  \<open>j\<close> is \<open>v / 1000\<close> when the dataset is nyu, and \<open>v / 256\<close> for any other dataset,
  where \<open>v\<close> is the decoded raw value at row \<open>y + i\<close> and column \<open>x + j\<close>, or, when the
  flip is drawn, at the mirrored column of the crop. This holds whatever the crop
  offset, the flip and the augmentation. So a raw 1000 is emitted as 1 under nyu, and a
  raw 256 as 1 otherwise.
\<close>

theorem getitem_train_depth_scale:
  assumes "rounding fl" and "shape2 image_px = 3" and "well_shaped2 depth_px"
    and "rows2 depth_px = shape0 image_px" and "cols2 depth_px = shape1 image_px"
    and "0 \<le> input_height a" and "input_height a \<le> int (shape0 image_px)"
    and "0 \<le> input_width a" and "input_width a \<le> int (shape1 image_px)"
    and "transform = None \<or> transform = Some False"
  shows "\<exists>out x y.
     getitem_train fl a transform image_px depth_px focal rx ry
       do_flip do_augment ug ub uc = Inr out \<and>
     y + nat (input_height a) \<le> rows2 depth_px \<and>
     x + nat (input_width a) \<le> cols2 depth_px \<and>
     depth_size out = Some (nat (input_height a), nat (input_width a)) \<and>
     (\<forall>i<nat (input_height a). \<forall>j<nat (input_width a).
        depth_at out i j =
          Some (elems2 depth_px ! (y + i) !
                  (x + (if do_flip > 0.5 then nat (input_width a) - 1 - j else j)) /
                (if dataset a = ''nyu'' then 1000 else 256)))"
proof -
  let ?k = "if dataset a = ''nyu'' then 1000 else 256 :: real"
  let ?h = "input_height a"
  let ?w = "input_width a"
  let ?img = "map3 (\<lambda>v. v / 255) image_px"
  define depth0 where "depth0 =
     (if dataset a = ''nyu'' then map3 (\<lambda>v. v / 1000) (expand_dims_2 depth_px)
      else map3 (\<lambda>v. v / 256) (expand_dims_2 depth_px))"
  have depth0: "depth0 = map3 (\<lambda>v. v / ?k) (expand_dims_2 depth_px)"
    by (simp add: depth0_def)
  have "shape0 depth0 = shape0 ?img" "shape1 depth0 = shape1 ?img"
    "?h \<le> int (shape0 ?img)" "?w \<le> int (shape1 ?img)"
    using assms(4,5,7,9) by (simp_all add: depth0 expand_dims_2_def)
  from random_crop_slices [OF this, of rx ry]
  obtain x y where x: "0 \<le> x" "x \<le> int (shape1 ?img) - ?w"
      and y: "0 \<le> y" "y \<le> int (shape0 ?img) - ?h"
      and crop: "random_crop ?img depth0 ?h ?w rx ry =
        Inr (slice_hw y (y + ?h) x (x + ?w) ?img, slice_hw y (y + ?h) x (x + ?w) depth0)"
    by blast
  let ?img1 = "slice_hw y (y + ?h) x (x + ?w) ?img"
  define depth1 where "depth1 = slice_hw y (y + ?h) x (x + ?w) depth0"
  define depth2 where "depth2 = (if do_flip > 0.5 then hflip depth1 else depth1)"
  have "shape2 ?img1 = 3"
    using assms(2) by (simp add: slice_hw_def)
  from train_preprocess_arrays_depth [OF this]
  obtain img2 where pre: "train_preprocess_arrays (dataset a) ?img1 depth1 do_flip do_augment
        ug ub uc = Inr (img2, depth2)"
      and channels: "shape2 img2 = 3"
    unfolding depth2_def by blast
  have fits: "y + ?h \<le> int (rows2 depth_px)" "x + ?w \<le> int (cols2 depth_px)"
    using x(2) y(2) assms(4,5) by simp_all
  have at: "shape0 depth2 = nat ?h \<and> shape1 depth2 = nat ?w \<and> shape2 depth2 = 1 \<and>
     (\<forall>i<nat ?h. \<forall>j<nat ?w.
        at3 depth2 i j 0 =
          elems2 depth_px ! (nat y + i) !
            (nat x + (if do_flip > 0.5 then nat ?w - 1 - j else j)) / ?k)"
    unfolding depth2_def depth1_def depth0
    using assms(3) y(1) assms(6) fits(1) x(1) assms(8) fits(2) by (rule cropped_depth_at)
  then have shape: "shape0 depth2 = nat ?h" "shape1 depth2 = nat ?w" "shape2 depth2 = 1"
    and elt: "\<And>i j. i < nat ?h \<Longrightarrow> j < nat ?w \<Longrightarrow>
        at3 depth2 i j 0 =
          elems2 depth_px ! (nat y + i) !
            (nat x + (if do_flip > 0.5 then nat ?w - 1 - j else j)) / ?k"
    by blast+
  let ?sample = "\<lparr>raw_image = NdArray3 float32_array img2,
      raw_depth = Some (NdArray3 float32_array depth2), raw_focal = focal\<rparr>"
  have run: "getitem_train fl a transform image_px depth_px focal rx ry
      do_flip do_augment ug ub uc = apply_transform fl transform ?sample"
    using crop pre by (simp add: getitem_train_def Let_def depth0_def depth1_def)
  have "\<exists>out. apply_transform fl transform ?sample = Inr out \<and>
      depth_size out = Some (nat ?h, nat ?w) \<and>
      (\<forall>i<nat ?h. \<forall>j<nat ?w. depth_at out i j = Some (at3 depth2 i j 0))"
  proof (cases transform)
    case None
    then show ?thesis
      using shape by (simp add: apply_transform_def)
  next
    case (Some is_test)
    then have "\<not> is_test"
      using assms(10) by simp
    have "raw_image ?sample = NdArray3 float32_array img2"
      "is_floating_point (dtype float32_array)"
      "raw_depth ?sample = Some (NdArray3 float32_array depth2)"
      by (simp_all add: float32_array_def)
    from ToTensor_call_train [OF assms(1) this(1) torch_convertible_float32_array this(2)
        channels this(3) torch_convertible_float32_array]
    have "apply_transform fl transform ?sample =
        Inr (TensorSample \<lparr>tensor_image = build3 3 (shape0 img2) (shape1 img2)
            (\<lambda>c i j. fl (fl (at3 (transpose_201 img2) c i j - fl (mean ! c)) / fl (std ! c))),
          tensor_depth = Some (NumpyTensor (dtype float32_array) (transpose_201 depth2)),
          tensor_focal = focal\<rparr>)"
      using Some \<open>\<not> is_test\<close> by (simp add: apply_transform_def)
    moreover have "at3 (transpose_201 depth2) 0 i j = at3 depth2 i j 0"
      if "i < nat ?h" "j < nat ?w" for i j
      using that shape by (simp add: at3_transpose_201)
    ultimately show ?thesis
      using shape by simp
  qed
  then obtain out where out: "apply_transform fl transform ?sample = Inr out"
      "depth_size out = Some (nat ?h, nat ?w)"
      and pos: "\<And>i j. i < nat ?h \<Longrightarrow> j < nat ?w \<Longrightarrow> depth_at out i j = Some (at3 depth2 i j 0)"
    by blast
  have "nat y + nat ?h \<le> rows2 depth_px" "nat x + nat ?w \<le> cols2 depth_px"
    using fits x(1) y(1) assms(6,8) by linarith+
  moreover have "depth_at out i j =
      Some (elems2 depth_px ! (nat y + i) !
              (nat x + (if do_flip > 0.5 then nat ?w - 1 - j else j)) / ?k)"
    if "i < nat ?h" "j < nat ?w" for i j
    using pos [OF that] elt [OF that] by simp
  ultimately show ?thesis
    using run out by (intro exI [of _ out] exI [of _ "nat x"] exI [of _ "nat y"]) simp
qed

text \<open>
  The theorem at a depth map of one pixel that holds the raw value 1000, under nyu, in
  \<^verbatim>\<open>float32\<close> arithmetic: the depth of the tensor sample is 1.
\<close>

theorem getitem_train_depth_scale_witness:
  "rounding round_float32 \<and>
   well_shaped2 \<lparr>rows2 = 1, cols2 = 1, elems2 = [[1000 :: real]]\<rparr> \<and>
   (\<exists>out. getitem_train round_float32
        \<lparr>dataset = ''nyu'', do_kb_crop = False, input_height = 1, input_width = 1\<rparr>
        (Some False)
        \<lparr>shape0 = 1, shape1 = 1, shape2 = 3, elems = [[[0, 255, 51]]]\<rparr>
        \<lparr>rows2 = 1, cols2 = 1, elems2 = [[1000]]\<rparr> 518.8 3 4 0.7 0.9 0.5 0.5 (0, 0.5, 1) = Inr out \<and>
      depth_size out = Some (1, 1) \<and> depth_at out 0 0 = Some 1)"
proof -
  let ?a = "\<lparr>dataset = ''nyu'', do_kb_crop = False, input_height = 1, input_width = 1\<rparr>"
  let ?i = "\<lparr>shape0 = 1, shape1 = 1, shape2 = 3, elems = [[[0, 255, 51 :: real]]]\<rparr>"
  let ?d = "\<lparr>rows2 = 1, cols2 = 1, elems2 = [[1000 :: real]]\<rparr>"
  have ws: "well_shaped2 ?d" by (simp add: well_shaped2_def)
  have "\<exists>out x y.
     getitem_train round_float32 ?a (Some False) ?i ?d 518.8 3 4 0.7 0.9 0.5 0.5 (0, 0.5, 1) = Inr out \<and>
     y + nat (input_height ?a) \<le> rows2 ?d \<and>
     x + nat (input_width ?a) \<le> cols2 ?d \<and>
     depth_size out = Some (nat (input_height ?a), nat (input_width ?a)) \<and>
     (\<forall>i<nat (input_height ?a). \<forall>j<nat (input_width ?a).
        depth_at out i j =
          Some (elems2 ?d ! (y + i) !
                  (x + (if (0.7 :: real) > 0.5 then nat (input_width ?a) - 1 - j else j)) /
                (if dataset ?a = ''nyu'' then 1000 else 256)))"
    by (rule getitem_train_depth_scale) (simp_all add: rounding_round_float32 well_shaped2_def)
  then obtain out x y where
      run: "getitem_train round_float32 ?a (Some False) ?i ?d 518.8 3 4 0.7 0.9 0.5 0.5 (0, 0.5, 1) =
        Inr out"
      and fits: "y + nat (input_height ?a) \<le> rows2 ?d" "x + nat (input_width ?a) \<le> cols2 ?d"
      and size: "depth_size out = Some (nat (input_height ?a), nat (input_width ?a))"
      and pos: "\<And>i j. i < nat (input_height ?a) \<Longrightarrow> j < nat (input_width ?a) \<Longrightarrow>
        depth_at out i j =
          Some (elems2 ?d ! (y + i) !
                  (x + (if (0.7 :: real) > 0.5 then nat (input_width ?a) - 1 - j else j)) /
                (if dataset ?a = ''nyu'' then 1000 else 256))"
    by (elim exE conjE) blast
  have zero: "x = 0" "y = 0"
    using fits by simp_all
  have "depth_at out 0 0 =
      Some (elems2 ?d ! (y + 0) !
              (x + (if (0.7 :: real) > 0.5 then nat (input_width ?a) - 1 - 0 else 0)) /
            (if dataset ?a = ''nyu'' then 1000 else 256))"
    by (rule pos) simp_all
  then have "depth_at out 0 0 = Some 1"
    by (simp add: zero)
  then show ?thesis
    using ws run size rounding_round_float32 by simp
qed

text \<open>
  A call for another dataset, computed: the raw values 256 and 512 are emitted as 1
  and 2 (mirrored, as the flip is drawn).
\<close>

lemma getitem_train_example:
  "getitem_train (\<lambda>x. x)
     \<lparr>dataset = ''kitti'', do_kb_crop = False, input_height = 1, input_width = 2\<rparr>
     (Some False)
     \<lparr>shape0 = 1, shape1 = 2, shape2 = 3, elems = [[[255, 255, 255], [0, 0, 0]]]\<rparr>
     \<lparr>rows2 = 1, cols2 = 2, elems2 = [[256, 512]]\<rparr> 518.8 3 4 0.7 0.2 0 0 (0, 0, 0) =
   Inr (TensorSample
     \<lparr>tensor_image = \<lparr>shape0 = 3, shape1 = 1, shape2 = 2,
         elems = [[[- (485 / 229), 515 / 229]], [[- (57 / 28), 17 / 7]],
                  [[- (406 / 225), 66 / 25]]]\<rparr>,
      tensor_depth = Some (NumpyTensor Float32
        \<lparr>shape0 = 1, shape1 = 1, shape2 = 2, elems = [[[2, 1]]]\<rparr>),
      tensor_focal = 518.8\<rparr>)"
  by (simp add: getitem_train_def Let_def map3_def expand_dims_2_def random_crop_def randint_def
      slice_hw_def slice_len_def py_slice_def adjust_index_def
      train_preprocess_arrays_def train_preprocess_def alloc_def hflip_def
      apply_transform_def ToTensor_call_def to_tensor_def is_numpy_image_def from_numpy_def
      float32_array_def transpose_201_def normalize_array_def build3_def at3_def mean_def
      std_def upt_rec)

text \<open>
  With ToTensor(is_test = True) as the transform, the sample of a train-mode loader
  holds no depth.
\<close>

lemma apply_transform_test_no_depth:
  "apply_transform fl (Some True) sample = Inr out \<Longrightarrow> depth_at out i j = None"
  by (auto simp: apply_transform_def ToTensor_call_def split: sum.splits)

end
